theory Spec2Isabelle
  imports Complex_Main
begin

section \<open>Python values\<close>

text \<open>
  The validator of \<^verbatim>\<open>kong/adversarial.py\<close> takes \<^verbatim>\<open>analysis\<close> and \<^verbatim>\<open>raw_data\<close>, two
  dictionaries of JSON-like data: \<^verbatim>\<open>None\<close>, booleans, integers, floats, strings, lists
  and dictionaries with string keys. A dictionary is an association list in insertion
  order (\<^verbatim>\<open>items()\<close> iterates in that order); a lookup takes the first entry of a key.

  Integers are unbounded, as in Python. A float is modelled by the rational number it
  stands for and float arithmetic is exact: no rounding error, no infinity and no NaN.
  A string is a list of code points below 256.
\<close>

datatype pyval =
    PNone
  | PBool bool
  | PInt int
  | PFloat rat
  | PStr string
  | PList "pyval list"
  | PDict "(string \<times> pyval) list"

type_synonym pydict = "(string \<times> pyval) list"

text \<open>The exceptions the validator can raise on such data.\<close>

datatype error = TypeError | ValueError | OverflowError | KeyError | AttributeError

text \<open>Sequencing of computations that may raise: the first exception ends the run.\<close>

definition bind :: "error + 'a \<Rightarrow> ('a \<Rightarrow> error + 'b) \<Rightarrow> error + 'b" where
  "bind r f = (case r of Inl e \<Rightarrow> Inl e | Inr x \<Rightarrow> f x)"

text \<open>\<^verbatim>\<open>bool(v)\<close>: what \<^verbatim>\<open>if v\<close>, \<^verbatim>\<open>v and ...\<close> and \<^verbatim>\<open>v or ...\<close> test.\<close>

fun truthy :: "pyval \<Rightarrow> bool" where
  "truthy PNone = False"
| "truthy (PBool b) = b"
| "truthy (PInt i) = (i \<noteq> 0)"
| "truthy (PFloat q) = (q \<noteq> 0)"
| "truthy (PStr s) = (s \<noteq> [])"
| "truthy (PList xs) = (xs \<noteq> [])"
| "truthy (PDict kvs) = (kvs \<noteq> [])"

text \<open>\<^verbatim>\<open>d.get(k)\<close> and \<^verbatim>\<open>d.get(k, default)\<close>.\<close>

definition get :: "pydict \<Rightarrow> string \<Rightarrow> pyval \<Rightarrow> pyval" where
  "get d k dflt = (case map_of d k of None \<Rightarrow> dflt | Some v \<Rightarrow> v)"

text \<open>\<^verbatim>\<open>a or b\<close> on values: the first operand when it is truthy, else the second.\<close>

definition py_or :: "pyval \<Rightarrow> pyval \<Rightarrow> pyval" where
  "py_or a b = (if truthy a then a else b)"

text \<open>
  The number a value stands for in a comparison with a number. \<^verbatim>\<open>bool\<close> is a subclass of
  \<^verbatim>\<open>int\<close>; every other type raises \<^verbatim>\<open>TypeError\<close> when compared with a number.
\<close>

fun num_of :: "pyval \<Rightarrow> rat option" where
  "num_of (PBool b) = Some (if b then 1 else 0)"
| "num_of (PInt i) = Some (of_int i)"
| "num_of (PFloat q) = Some q"
| "num_of _ = None"

definition py_gt :: "pyval \<Rightarrow> rat \<Rightarrow> error + bool" where
  "py_gt v c = (case num_of v of None \<Rightarrow> Inl TypeError | Some q \<Rightarrow> Inr (c < q))"

definition py_lt :: "pyval \<Rightarrow> rat \<Rightarrow> error + bool" where
  "py_lt v c = (case num_of v of None \<Rightarrow> Inl TypeError | Some q \<Rightarrow> Inr (q < c))"

text \<open>\<^verbatim>\<open>len(v)\<close>: defined on strings, lists and dictionaries only.\<close>

fun py_len :: "pyval \<Rightarrow> error + nat" where
  "py_len (PStr s) = Inr (length s)"
| "py_len (PList xs) = Inr (length xs)"
| "py_len (PDict kvs) = Inr (length kvs)"
| "py_len _ = Inl TypeError"

text \<open>
  \<^verbatim>\<open>for f in v\<close>: the characters of a string, the items of a list, the keys of a
  dictionary; anything else is not iterable.
\<close>

fun py_iter :: "pyval \<Rightarrow> error + pyval list" where
  "py_iter (PStr s) = Inr (map (\<lambda>c. PStr [c]) s)"
| "py_iter (PList xs) = Inr xs"
| "py_iter (PDict kvs) = Inr (map (\<lambda>kv. PStr (fst kv)) kvs)"
| "py_iter _ = Inl TypeError"

section \<open>Text\<close>

text \<open>\<^verbatim>\<open>s.lower()\<close> on code points below 256: A-Z and the Latin-1 capitals.\<close>

definition lower_char :: "char \<Rightarrow> char" where
  "lower_char c =
     (let n = (of_char c :: nat)
      in if (65 \<le> n \<and> n \<le> 90) \<or> (192 \<le> n \<and> n \<le> 222 \<and> n \<noteq> 215)
         then char_of (n + 32) else c)"

definition lower :: "string \<Rightarrow> string" where
  "lower s = map lower_char s"

text \<open>\<^verbatim>\<open>sub in text\<close> on strings: \<^verbatim>\<open>sub\<close> occurs in \<^verbatim>\<open>text\<close> as a contiguous run.\<close>

fun starts_with :: "string \<Rightarrow> string \<Rightarrow> bool" where
  "starts_with [] t = True"
| "starts_with (c # cs) [] = False"
| "starts_with (c # cs) (d # ds) = (c = d \<and> starts_with cs ds)"

fun contains :: "string \<Rightarrow> string \<Rightarrow> bool" where
  "contains sub [] = (sub = [])"
| "contains sub (d # ds) = (starts_with sub (d # ds) \<or> contains sub ds)"

text \<open>\<^verbatim>\<open>sep.join(parts)\<close>.\<close>

fun join :: "string \<Rightarrow> string list \<Rightarrow> string" where
  "join sep [] = []"
| "join sep [p] = p"
| "join sep (p # q # ps) = p @ sep @ join sep (q # ps)"

text \<open>\<^verbatim>\<open>str(n)\<close> of an integer: its decimal digits.\<close>

definition digit_char :: "nat \<Rightarrow> char" where
  "digit_char n = char_of (48 + n)"

fun str_nat :: "nat \<Rightarrow> string" where
  "str_nat n = (if n < 10 then [digit_char n] else str_nat (n div 10) @ [digit_char (n mod 10)])"

declare str_nat.simps [simp del]

definition str_int :: "int \<Rightarrow> string" where
  "str_int i = (if i < 0 then CHR ''-'' # str_nat (nat (- i)) else str_nat (nat i))"

text \<open>
  \<^verbatim>\<open>repr(x)\<close> of a float, in positional notation: the integer part, a point and the
  decimal digits of the fraction (at least one, at most 17). This is Python's text for
  a decimal literal of at most 15 significant digits between 1e-4 and 1e16; outside
  that range Python switches to exponent notation, which is not modelled.
\<close>

fun frac_digits :: "nat \<Rightarrow> rat \<Rightarrow> string" where
  "frac_digits 0 q = []"
| "frac_digits (Suc k) q =
     (let d = nat \<lfloor>q * 10\<rfloor>; r = q * 10 - of_nat d
      in digit_char d # (if r = 0 then [] else frac_digits k r))"

definition str_float :: "rat \<Rightarrow> string" where
  "str_float q =
     (let a = \<bar>q\<bar>; n = nat \<lfloor>a\<rfloor>
      in (if q < 0 then ''-'' else []) @ str_nat n @ ''.'' @ frac_digits 17 (a - of_nat n))"

text \<open>
  \<^verbatim>\<open>repr(s)\<close> of a string: in single quotes, or in double quotes when the string holds
  a single quote and no double quote; the backslash, the quote in use, tab, newline
  and carriage return are escaped, every other non-printable code point is written
  \<^verbatim>\<open>\xNN\<close>.
\<close>

definition hex_digit :: "nat \<Rightarrow> char" where
  "hex_digit n = (if n < 10 then char_of (48 + n) else char_of (87 + n))"

definition printable :: "char \<Rightarrow> bool" where
  "printable c =
     (let n = (of_char c :: nat) in (32 \<le> n \<and> n < 127) \<or> (161 \<le> n \<and> n \<noteq> 173))"

definition repr_char :: "char \<Rightarrow> char \<Rightarrow> string" where
  "repr_char quote c =
     (if c = quote \<or> c = CHR 0x5C then [CHR 0x5C, c]
      else if c = CHR 0x09 then [CHR 0x5C, CHR ''t'']
      else if c = CHR 0x0A then [CHR 0x5C, CHR ''n'']
      else if c = CHR 0x0D then [CHR 0x5C, CHR ''r'']
      else if printable c then [c]
      else [CHR 0x5C, CHR ''x'', hex_digit ((of_char c :: nat) div 16),
            hex_digit ((of_char c :: nat) mod 16)])"

definition repr_str :: "string \<Rightarrow> string" where
  "repr_str s =
     (let quote = (if CHR 0x27 \<in> set s \<and> CHR 0x22 \<notin> set s then CHR 0x22 else CHR 0x27)
      in [quote] @ concat (map (repr_char quote) s) @ [quote])"

text \<open>\<^verbatim>\<open>repr(v)\<close> and \<^verbatim>\<open>str(v)\<close>: they differ on strings only.\<close>

fun py_repr :: "pyval \<Rightarrow> string"
  and py_repr_elems :: "pyval list \<Rightarrow> string list"
  and py_repr_items :: "(string \<times> pyval) list \<Rightarrow> string list" where
  "py_repr PNone = ''None''"
| "py_repr (PBool b) = (if b then ''True'' else ''False'')"
| "py_repr (PInt i) = str_int i"
| "py_repr (PFloat q) = str_float q"
| "py_repr (PStr s) = repr_str s"
| "py_repr (PList xs) = ''['' @ join '', '' (py_repr_elems xs) @ '']''"
| "py_repr (PDict kvs) = ''{'' @ join '', '' (py_repr_items kvs) @ ''}''"
| "py_repr_elems [] = []"
| "py_repr_elems (x # xs) = py_repr x # py_repr_elems xs"
| "py_repr_items [] = []"
| "py_repr_items (kv # kvs) =
     (repr_str (fst kv) @ '': '' @ py_repr (snd kv)) # py_repr_items kvs"

definition py_str :: "pyval \<Rightarrow> string" where
  "py_str v = (case v of PStr s \<Rightarrow> s | _ \<Rightarrow> py_repr v)"

section \<open>The completeness check\<close>

text \<open>
  \<^verbatim>\<open>flatten_to_string\<close>, the local function of \<^verbatim>\<open>_check_completeness\<close>: keys and leaf
  values of the analysis joined by spaces; past depth 10 a value is written by
  \<^verbatim>\<open>str\<close>; a falsy leaf gives the empty string.
\<close>

fun flatten_to_string :: "pyval \<Rightarrow> nat \<Rightarrow> string"
  and flatten_elems :: "pyval list \<Rightarrow> nat \<Rightarrow> string list"
  and flatten_items :: "(string \<times> pyval) list \<Rightarrow> nat \<Rightarrow> string list" where
  "flatten_to_string (PDict kvs) depth =
     (if depth > 10 then py_str (PDict kvs) else join '' '' (flatten_items kvs depth))"
| "flatten_to_string (PList xs) depth =
     (if depth > 10 then py_str (PList xs) else join '' '' (flatten_elems xs depth))"
| "flatten_to_string obj depth =
     (if depth > 10 then py_str obj else if truthy obj then py_str obj else [])"
| "flatten_elems [] depth = []"
| "flatten_elems (x # xs) depth = flatten_to_string x (depth + 1) # flatten_elems xs depth"
| "flatten_items [] depth = []"
| "flatten_items (kv # kvs) depth =
     fst kv # flatten_to_string (snd kv) (depth + 1) # flatten_items kvs depth"

text \<open>
  \<^verbatim>\<open>collect_keys\<close>: the lowercased keys of the analysis down to depth 5, through
  dictionaries only. The source collects them in a set; only membership is asked of it.
\<close>

fun collect_keys :: "pyval \<Rightarrow> nat \<Rightarrow> string list"
  and collect_items :: "(string \<times> pyval) list \<Rightarrow> nat \<Rightarrow> string list" where
  "collect_keys (PDict kvs) depth = (if depth > 5 then [] else collect_items kvs depth)"
| "collect_keys obj depth = []"
| "collect_items [] depth = []"
| "collect_items (kv # kvs) depth =
     lower (fst kv) # collect_keys (snd kv) (depth + 1) @ collect_items kvs depth"

definition reserved_keys :: "string list" where
  "reserved_keys = [''data_quality_score'', ''sources_failed'', ''sources_successful'',
                    ''collection_timestamp'', ''ticker'', ''entity_id'']"

definition semantic_mappings :: "(string \<times> string list) list" where
  "semantic_mappings =
    [(''earnings'', [''earnings'', ''eps'', ''revenue'', ''quarterly'', ''q1'', ''q2'', ''q3'', ''q4'',
                     ''profit'', ''income'', ''financial'']),
     (''news'', [''news'', ''sentiment'', ''media'', ''coverage'', ''article'', ''press'']),
     (''analyst'', [''analyst'', ''rating'', ''target'', ''consensus'', ''upgrade'', ''downgrade'',
                    ''buy'', ''sell'', ''hold'', ''overweight'', ''underweight'']),
     (''insider'', [''insider'', ''transaction'', ''executive'', ''director'', ''officer'',
                    ''purchase'', ''sale'', ''filing'']),
     (''sec'', [''sec'', ''filing'', ''10-k'', ''10-q'', ''8-k'', ''proxy'', ''edgar'']),
     (''filings'', [''filing'', ''regulatory'', ''disclosure'', ''sec'', ''annual'', ''quarterly''])]"

definition critical_sources :: "string list" where
  "critical_sources = [''earnings'', ''filings'', ''analyst'', ''news'', ''insider'', ''sec'']"

text \<open>\<^verbatim>\<open>semantic_mappings.get(name, [name])\<close>.\<close>

definition related_terms :: "string \<Rightarrow> string list" where
  "related_terms name = (case map_of semantic_mappings name of None \<Rightarrow> [name] | Some ts \<Rightarrow> ts)"

text \<open>
  Whether a top-level entry of \<^verbatim>\<open>raw_data\<close> is an available source: its value is truthy,
  its key is not reserved, and a dictionary value has no falsy \<^verbatim>\<open>success\<close> flag and
  some truthy value under a key other than \<^verbatim>\<open>success\<close>.
\<close>

definition is_available :: "string \<times> pyval \<Rightarrow> bool" where
  "is_available kv =
     (truthy (snd kv) \<and> fst kv \<notin> set reserved_keys \<and>
      (case snd kv of
         PDict d \<Rightarrow> truthy (get d ''success'' (PBool True)) \<and>
                    list_ex (\<lambda>e. fst e \<noteq> ''success'' \<and> truthy (snd e)) d
       | _ \<Rightarrow> True))"

text \<open>\<^verbatim>\<open>available_sources\<close>, a set of keys in the source: a list without repetition.\<close>

definition available_sources :: "pydict \<Rightarrow> string list" where
  "available_sources raw_data = remdups (map fst (filter is_available raw_data))"

text \<open>
  Whether a source counts as referenced: its lowercased name occurs in the flattened
  analysis, or at least two of its related terms do, or the name is a key of the
  analysis or a related term occurs in one of the keys.
\<close>

definition is_referenced :: "pydict \<Rightarrow> string \<Rightarrow> bool" where
  "is_referenced analysis source =
     (let analysis_text = lower (flatten_to_string (PDict analysis) 0);
          source_lower = lower source;
          terms = related_terms source_lower;
          matches = length (filter (\<lambda>t. contains t analysis_text) terms);
          analysis_keys = collect_keys (PDict analysis) 0
      in contains source_lower analysis_text \<or> matches \<ge> 2 \<or>
         source_lower \<in> set analysis_keys \<or>
         list_ex (\<lambda>t. list_ex (\<lambda>key. contains t key) analysis_keys) terms)"

definition sources_referenced :: "pydict \<Rightarrow> pydict \<Rightarrow> string list" where
  "sources_referenced analysis raw_data =
     filter (is_referenced analysis) (available_sources raw_data)"

definition is_critical :: "string \<Rightarrow> bool" where
  "is_critical source =
     (lower source \<in> set critical_sources \<or>
      list_ex (\<lambda>crit. contains crit (lower source)) critical_sources)"

definition critical_issue :: "string \<Rightarrow> string" where
  "critical_issue source =
     ''Critical data source '' @ [CHR 0x27] @ source @ [CHR 0x27] @
     '' available but not clearly analyzed''"

definition expected_issue :: "string \<Rightarrow> string" where
  "expected_issue field =
     ''Expected field '' @ [CHR 0x27] @ field @ [CHR 0x27] @ '' not addressed in analysis''"

text \<open>
  \<^verbatim>\<open>_check_completeness\<close>. \<^verbatim>\<open>expected_fields\<close> is \<^verbatim>\<open>None\<close> or a list of strings. The
  order of the critical-source issues is the iteration order of a Python set, which is
  not fixed; the model takes the order of \<^verbatim>\<open>raw_data\<close>.
\<close>

definition check_completeness ::
  "pydict \<Rightarrow> pydict \<Rightarrow> string list option \<Rightarrow> rat \<times> string list" where
  "check_completeness analysis raw_data expected_fields =
     (let available = available_sources raw_data;
          referenced = sources_referenced analysis raw_data;
          analysis_text = lower (flatten_to_string (PDict analysis) 0);
          completeness =
            (if available \<noteq> []
             then of_nat (length referenced) / of_nat (length available)
             else 1);
          critical =
            map critical_issue
              (filter (\<lambda>s. is_critical s \<and> s \<notin> set referenced) available);
          expected =
            (case expected_fields of
               None \<Rightarrow> []
             | Some fields \<Rightarrow>
                 map expected_issue
                   (filter (\<lambda>f. \<not> list_ex (\<lambda>t. contains t analysis_text)
                                       (related_terms (lower f))) fields))
      in (completeness, critical @ expected))"

section \<open>Formatting numbers in messages\<close>

text \<open>Rounding to the nearest integer, ties to the even one.\<close>

definition round_half_even :: "rat \<Rightarrow> int" where
  "round_half_even x =
     (let f = \<lfloor>x\<rfloor>; d = x - of_int f
      in if d < 1 / 2 then f else if 1 / 2 < d then f + 1 else if even f then f else f + 1)"

text \<open>
  \<^verbatim>\<open>f"{v:.0%}"\<close>: the number times 100 with no decimals and a percent sign. An integer
  is converted to a float first, which raises \<^verbatim>\<open>OverflowError\<close> from
  \<^verbatim>\<open>2**1024 - 2**970\<close> on; a string has no such format (\<^verbatim>\<open>ValueError\<close>), the other
  types no format at all (\<^verbatim>\<open>TypeError\<close>). The validator formats only numbers above 0.8.
\<close>

definition percent :: "rat \<Rightarrow> string" where
  "percent q = str_int (round_half_even (q * 100)) @ ''%''"

fun fmt_pct :: "pyval \<Rightarrow> error + string" where
  "fmt_pct (PFloat q) = Inr (percent q)"
| "fmt_pct (PInt i) =
     (if \<bar>i\<bar> \<ge> 2 ^ 1024 - 2 ^ 970 then Inl OverflowError else Inr (percent (of_int i)))"
| "fmt_pct (PBool b) = Inr (percent (if b then 1 else 0))"
| "fmt_pct (PStr s) = Inl ValueError"
| "fmt_pct v = Inl TypeError"

section \<open>The consistency check\<close>

text \<open>
  One rule of a scorer, \<^verbatim>\<open>if cond: issues.append(msg); score *= factor\<close>, on the pair
  of the score and the issues so far. The condition and the message may raise; the
  message is built only when the condition holds.
\<close>

definition discount ::
  "error + bool \<Rightarrow> error + string \<Rightarrow> rat \<Rightarrow> rat \<times> string list \<Rightarrow> error + rat \<times> string list" where
  "discount cond msg factor st =
     bind cond (\<lambda>fires.
       if fires then bind msg (\<lambda>m. Inr (fst st * factor, snd st @ [m])) else Inr st)"

text \<open>\<^verbatim>\<open>confidence and confidence > 0.8 and data_quality < 50\<close>, left to right.\<close>

definition high_confidence_low_quality :: "pyval \<Rightarrow> pyval \<Rightarrow> error + bool" where
  "high_confidence_low_quality confidence data_quality =
     (if \<not> truthy confidence then Inr False
      else bind (py_gt confidence (8 / 10)) (\<lambda>high.
        if \<not> high then Inr False else py_lt data_quality 50))"

definition low_quality_issue :: "pyval \<Rightarrow> pyval \<Rightarrow> error + string" where
  "low_quality_issue confidence data_quality =
     bind (fmt_pct confidence) (\<lambda>p.
       Inr (''High confidence ('' @ p @ '') despite low data quality ('' @
            py_str data_quality @ ''%)''))"

text \<open>\<^verbatim>\<open>score and score > 7 and len(sources_failed) > 2\<close>.\<close>

definition high_score_failed_sources :: "pyval \<Rightarrow> pyval \<Rightarrow> error + bool" where
  "high_score_failed_sources score sources_failed =
     (if \<not> truthy score then Inr False
      else bind (py_gt score 7) (\<lambda>high.
        if \<not> high then Inr False
        else bind (py_len sources_failed) (\<lambda>n. Inr (n > 2))))"

definition failed_sources_issue :: "pyval \<Rightarrow> pyval \<Rightarrow> error + string" where
  "failed_sources_issue score sources_failed =
     bind (py_len sources_failed) (\<lambda>n.
       Inr (''High score ('' @ py_str score @ '') but '' @ str_nat n @
            '' data sources failed''))"

text \<open>\<^verbatim>\<open>confidence and confidence > 0.8 and len(findings) < 2\<close>.\<close>

definition high_confidence_few_findings :: "pyval \<Rightarrow> pyval \<Rightarrow> error + bool" where
  "high_confidence_few_findings confidence findings =
     (if \<not> truthy confidence then Inr False
      else bind (py_gt confidence (8 / 10)) (\<lambda>high.
        if \<not> high then Inr False
        else bind (py_len findings) (\<lambda>n. Inr (n < 2))))"

definition few_findings_issue :: "pyval \<Rightarrow> pyval \<Rightarrow> error + string" where
  "few_findings_issue confidence findings =
     bind (fmt_pct confidence) (\<lambda>p.
       bind (py_len findings) (\<lambda>n.
         Inr (''High confidence ('' @ p @ '') but only '' @ str_nat n @ '' findings'')))"

definition contradiction_pairs :: "(string \<times> string) list" where
  "contradiction_pairs =
     [(''positive'', ''negative''), (''increasing'', ''decreasing''),
      (''strong'', ''weak''), (''improving'', ''declining'')]"

definition contradiction_issue :: "string \<times> string \<Rightarrow> string" where
  "contradiction_issue pr =
     ''Potentially contradictory terms in findings: '' @ [CHR 0x27] @ fst pr @ [CHR 0x27] @
     '' and '' @ [CHR 0x27] @ snd pr @ [CHR 0x27]"

text \<open>The loop over the antonym pairs: it cannot raise.\<close>

fun contradictions :: "string \<Rightarrow> (string \<times> string) list \<Rightarrow> rat \<times> string list \<Rightarrow> rat \<times> string list" where
  "contradictions findings_str [] st = st"
| "contradictions findings_str (pr # prs) st =
     contradictions findings_str prs
       (if contains (fst pr) findings_str \<and> contains (snd pr) findings_str
        then (fst st * (9 / 10), snd st @ [contradiction_issue pr])
        else st)"

text \<open>
  \<^verbatim>\<open>analysis.get('score') or analysis.get('quality_score', 0)\<close> and
  \<^verbatim>\<open>analysis.get('findings', []) or analysis.get('key_findings', [])\<close>.
\<close>

definition score_of :: "pydict \<Rightarrow> pyval" where
  "score_of analysis = py_or (get analysis ''score'' PNone) (get analysis ''quality_score'' (PInt 0))"

definition findings_of :: "pydict \<Rightarrow> pyval" where
  "findings_of analysis =
     py_or (get analysis ''findings'' (PList [])) (get analysis ''key_findings'' (PList []))"

text \<open>\<^verbatim>\<open>_check_consistency\<close>.\<close>

definition check_consistency :: "pydict \<Rightarrow> pydict \<Rightarrow> error + rat \<times> string list" where
  "check_consistency analysis raw_data =
     (let confidence = get analysis ''confidence'' (PInt 0);
          score = score_of analysis;
          findings = findings_of analysis;
          data_quality = get raw_data ''data_quality_score'' (PInt 100);
          sources_failed = get raw_data ''sources_failed'' (PList [])
      in bind (discount (high_confidence_low_quality confidence data_quality)
                 (low_quality_issue confidence data_quality) (6 / 10) (1, [])) (\<lambda>st1.
         bind (discount (high_score_failed_sources score sources_failed)
                 (failed_sources_issue score sources_failed) (7 / 10) st1) (\<lambda>st2.
         bind (discount (high_confidence_few_findings confidence findings)
                 (few_findings_issue confidence findings) (8 / 10) st2) (\<lambda>st3.
         bind (py_iter findings) (\<lambda>fs.
           Inr (contradictions (lower (join '' '' (map py_str fs))) contradiction_pairs st3))))))"

section \<open>The logic check\<close>

text \<open>\<^verbatim>\<open>confidence and confidence > 0.9\<close>, then \<^verbatim>\<open>len(sources_successful) < 4\<close>.\<close>

definition very_high_confidence_few_sources :: "pyval \<Rightarrow> pyval \<Rightarrow> error + bool" where
  "very_high_confidence_few_sources confidence sources_successful =
     (if \<not> truthy confidence then Inr False
      else bind (py_gt confidence (9 / 10)) (\<lambda>high.
        if \<not> high then Inr False
        else bind (py_len sources_successful) (\<lambda>n. Inr (n < 4))))"

definition few_sources_issue :: "pyval \<Rightarrow> pyval \<Rightarrow> error + string" where
  "few_sources_issue confidence sources_successful =
     bind (fmt_pct confidence) (\<lambda>p.
       bind (py_len sources_successful) (\<lambda>n.
         Inr (''Very high confidence ('' @ p @ '') with limited data sources ('' @
              str_nat n @ '' successful)'')))"

text \<open>\<^verbatim>\<open>if score: if score > 9 or score < 1: ... if len(findings) < 3\<close>.\<close>

definition extreme_score_few_findings :: "pyval \<Rightarrow> pyval \<Rightarrow> error + bool" where
  "extreme_score_few_findings score findings =
     (if \<not> truthy score then Inr False
      else bind (py_gt score 9) (\<lambda>high.
        bind (if high then Inr True else py_lt score 1) (\<lambda>extreme.
          if \<not> extreme then Inr False
          else bind (py_len findings) (\<lambda>n. Inr (n < 3)))))"

definition extreme_score_issue :: "pyval \<Rightarrow> string" where
  "extreme_score_issue score =
     ''Extreme score ('' @ py_str score @ '') without sufficient supporting findings''"

text \<open>
  \<^verbatim>\<open>_check_logic\<close>. It reads \<^verbatim>\<open>data_quality_score\<close> with the default 0 into a local
  variable that no rule mentions.
\<close>

definition check_logic :: "pydict \<Rightarrow> pydict \<Rightarrow> error + rat \<times> string list" where
  "check_logic analysis raw_data =
     (let confidence = get analysis ''confidence'' (PInt 0);
          score = score_of analysis;
          sources_successful = get raw_data ''sources_successful'' (PList []);
          data_quality = get raw_data ''data_quality_score'' (PInt 0);
          recommendations = get analysis ''recommendations'' (PList []);
          findings = findings_of analysis
      in bind (discount (very_high_confidence_few_sources confidence sources_successful)
                 (few_sources_issue confidence sources_successful) (7 / 10) (1, [])) (\<lambda>st1.
         bind (discount (extreme_score_few_findings score findings)
                 (Inr (extreme_score_issue score)) (6 / 10) st1) (\<lambda>st2.
         discount (Inr (truthy recommendations \<and> \<not> truthy findings))
           (Inr ''Recommendations provided without supporting findings'') (7 / 10) st2)))"

section \<open>Adversarial questions\<close>

definition lower_confidence_question :: string where
  "lower_confidence_question = ''What would cause you to lower your confidence in this analysis?''"

definition raise_confidence_question :: string where
  "raise_confidence_question = ''What additional data would increase confidence?''"

text \<open>\<^verbatim>\<open>if sources_failed: questions.append(f"... {len(sources_failed)} ...")\<close>.\<close>

definition failed_sources_questions :: "pyval \<Rightarrow> error + string list" where
  "failed_sources_questions sources_failed =
     (if truthy sources_failed
      then bind (py_len sources_failed) (\<lambda>n.
             Inr [''How confident can we be with '' @ str_nat n @ '' data sources unavailable?''])
      else Inr [])"

text \<open>\<^verbatim>\<open>if data_quality < 80: questions.append(f"... {data_quality}% ...")\<close>.\<close>

definition data_quality_questions :: "pyval \<Rightarrow> error + string list" where
  "data_quality_questions data_quality =
     bind (py_lt data_quality 80) (\<lambda>low.
       Inr (if low
            then [''Data quality is only '' @ py_str data_quality @
                  ''% - what are we potentially missing?'']
            else []))"

definition fixed_questions :: "string list" where
  "fixed_questions =
     [''Is this analysis based on current data or historical trends?'',
      ''How might this conclusion change in 3-6 months?'',
      ''What factors outside the available data could affect this conclusion?'',
      ''How does this compare to industry peers/benchmarks?'']"

text \<open>
  \<^verbatim>\<open>if confidence and confidence > 0.8: ... elif confidence and confidence < 0.5: ...\<close>
\<close>

definition confidence_questions :: "pyval \<Rightarrow> error + string list" where
  "confidence_questions confidence =
     (if \<not> truthy confidence then Inr []
      else bind (py_gt confidence (8 / 10)) (\<lambda>high.
        if high then Inr [lower_confidence_question]
        else bind (py_lt confidence (5 / 10)) (\<lambda>low.
          Inr (if low then [raise_confidence_question] else []))))"

definition contradiction_questions :: "string list \<Rightarrow> string list" where
  "contradiction_questions existing_issues =
     (if list_ex (\<lambda>issue. contains ''contradictory'' (lower issue)) existing_issues
      then [''Are the contradictions in findings a bug or a feature?'']
      else [])"

text \<open>\<^verbatim>\<open>AdversarialValidator._generate_adversarial_questions\<close>.\<close>

definition generate_adversarial_questions ::
  "pydict \<Rightarrow> pydict \<Rightarrow> string list \<Rightarrow> error + string list" where
  "generate_adversarial_questions analysis raw_data existing_issues =
     bind (failed_sources_questions (get raw_data ''sources_failed'' (PList []))) (\<lambda>q1.
     bind (data_quality_questions (get raw_data ''data_quality_score'' (PInt 100))) (\<lambda>q2.
     bind (confidence_questions (get analysis ''confidence'' (PInt 0))) (\<lambda>q3.
       Inr (q1 @ q2 @ fixed_questions @ q3 @ contradiction_questions existing_issues))))"

section \<open>Recommendations\<close>

text \<open>\<^verbatim>\<open>_generate_recommendations\<close>.\<close>

definition generate_recommendations ::
  "rat \<Rightarrow> rat \<Rightarrow> rat \<Rightarrow> string list \<Rightarrow> string list \<Rightarrow> string list" where
  "generate_recommendations completeness consistency logic issues questions =
     (let recommendations =
            (if completeness < 8 / 10
             then [''ADD_DATA: Collect missing data sources before reanalysis''] else []) @
            (if consistency < 7 / 10
             then [''REVIEW: Manual review needed for inconsistencies''] else []) @
            (if logic < 7 / 10
             then [''RERUN: Conclusions may not follow from evidence''] else []) @
            (if length issues > 5
             then [''ESCALATE: Too many issues for automated resolution''] else []) @
            (if length questions > 4
             then [''DEEP_DIVE: Many unanswered questions require investigation''] else [])
      in if recommendations = []
         then [''APPROVED: Analysis passes adversarial validation'']
         else recommendations)"

section \<open>The validator\<close>

text \<open>The five tunables of \<^verbatim>\<open>AdversarialValidator.__init__\<close> and its defaults.\<close>

record config =
  completeness_weight :: rat
  consistency_weight :: rat
  logic_weight :: rat
  confidence_threshold :: rat
  max_issues_before_rerun :: int

definition default_config :: config where
  "default_config =
     \<lparr>completeness_weight = 4 / 10, consistency_weight = 3 / 10, logic_weight = 3 / 10,
      confidence_threshold = 7 / 10, max_issues_before_rerun = 3\<rparr>"

text \<open>A configuration whose weights sum to 2: the constructor checks nothing.\<close>

definition heavy_config :: config where
  "heavy_config =
     \<lparr>completeness_weight = 8 / 10, consistency_weight = 8 / 10, logic_weight = 4 / 10,
      confidence_threshold = 7 / 10, max_issues_before_rerun = 3\<rparr>"

record ValidationResult =
  overall_confidence :: rat
  completeness_score :: rat
  consistency_score :: rat
  logic_score :: rat
  issues_found :: "string list"
  adversarial_questions :: "string list"
  recommended_actions :: "string list"
  should_rerun :: bool

text \<open>\<^verbatim>\<open>round(x, 3)\<close>.\<close>

definition round3 :: "rat \<Rightarrow> rat" where
  "round3 x = of_int (round_half_even (x * 1000)) / 1000"

text \<open>
  \<^verbatim>\<open>AdversarialValidator.validate\<close>. The question generator is a parameter: the subclass
  \<^verbatim>\<open>OllamaAdversarialValidator\<close> overrides it. \<^verbatim>\<open>entity_id\<close> is not used by the body.
\<close>

definition validate_with ::
  "(pydict \<Rightarrow> pydict \<Rightarrow> string list \<Rightarrow> error + string list) \<Rightarrow>
   config \<Rightarrow> string \<Rightarrow> pydict \<Rightarrow> pydict \<Rightarrow> string list option \<Rightarrow> error + ValidationResult" where
  "validate_with questions_of cfg entity_id analysis raw_data expected_fields =
     (let completeness = check_completeness analysis raw_data expected_fields
      in bind (check_consistency analysis raw_data) (\<lambda>consistency.
         bind (check_logic analysis raw_data) (\<lambda>logic.
           let issues = snd completeness @ snd consistency @ snd logic
           in bind (questions_of analysis raw_data issues) (\<lambda>questions.
             let weighted =
                   fst completeness * completeness_weight cfg +
                   fst consistency * consistency_weight cfg +
                   fst logic * logic_weight cfg;
                 issue_penalty = min (of_nat (length issues) * (5 / 100)) (3 / 10);
                 penalized = max 0 (weighted - issue_penalty);
                 rerun = (penalized < confidence_threshold cfg \<or>
                          int (length issues) > max_issues_before_rerun cfg);
                 recommendations =
                   generate_recommendations (fst completeness) (fst consistency) (fst logic)
                     issues questions
             in Inr \<lparr>overall_confidence = round3 penalized,
                     completeness_score = round3 (fst completeness),
                     consistency_score = round3 (fst consistency),
                     logic_score = round3 (fst logic),
                     issues_found = issues,
                     adversarial_questions = questions,
                     recommended_actions = recommendations,
                     should_rerun = rerun\<rparr>))))"

definition validate ::
  "config \<Rightarrow> string \<Rightarrow> pydict \<Rightarrow> pydict \<Rightarrow> string list option \<Rightarrow> error + ValidationResult" where
  "validate = validate_with generate_adversarial_questions"

section \<open>The validator with a language model\<close>

text \<open>
  \<^verbatim>\<open>OllamaAdversarialValidator._generate_adversarial_questions\<close> asks a language model
  for more questions inside \<^verbatim>\<open>try: ... except Exception\<close>. The client is outside the
  repository: the model takes the outcome of the one call \<^verbatim>\<open>self.client.chat(...)\<close>,
  which either raises an \<^verbatim>\<open>Exception\<close> (building the client included) or returns a
  response, any JSON-like value. The prompt only feeds that call.
\<close>

datatype chat_outcome = Raised | Returned pyval

text \<open>\<^verbatim>\<open>v[key]\<close> with a string key.\<close>

fun getitem :: "pyval \<Rightarrow> string \<Rightarrow> error + pyval" where
  "getitem (PDict d) k = (case map_of d k of None \<Rightarrow> Inl KeyError | Some v \<Rightarrow> Inr v)"
| "getitem v k = Inl TypeError"

text \<open>\<^verbatim>\<open>s.strip()\<close> and \<^verbatim>\<open>s.split('\n')\<close>.\<close>

definition is_space :: "char \<Rightarrow> bool" where
  "is_space c =
     (let n = (of_char c :: nat)
      in (9 \<le> n \<and> n \<le> 13) \<or> (28 \<le> n \<and> n \<le> 32) \<or> n = 133 \<or> n = 160)"

definition strip :: "string \<Rightarrow> string" where
  "strip s = rev (dropWhile is_space (rev (dropWhile is_space s)))"

fun split_lines :: "string \<Rightarrow> string list" where
  "split_lines [] = [[]]"
| "split_lines (c # cs) =
     (if c = CHR 0x0A then [] # split_lines cs
      else (case split_lines cs of l # ls \<Rightarrow> (c # l) # ls | [] \<Rightarrow> [[c]]))"

text \<open>
  \<^verbatim>\<open>response['message']['content'].strip().split('\n')\<close>, then the first three
  non-blank lines, stripped.
\<close>

definition llm_questions :: "pyval \<Rightarrow> error + string list" where
  "llm_questions response =
     bind (getitem response ''message'') (\<lambda>message.
     bind (getitem message ''content'') (\<lambda>content.
       case content of
         PStr s \<Rightarrow> Inr (take 3 (filter (\<lambda>q. q \<noteq> []) (map strip (split_lines (strip s)))))
       | _ \<Rightarrow> Inl AttributeError))"

definition ollama_generate_adversarial_questions ::
  "chat_outcome \<Rightarrow> pydict \<Rightarrow> pydict \<Rightarrow> string list \<Rightarrow> error + string list" where
  "ollama_generate_adversarial_questions outcome analysis raw_data existing_issues =
     bind (generate_adversarial_questions analysis raw_data existing_issues) (\<lambda>base_questions.
       case outcome of
         Raised \<Rightarrow> Inr base_questions
       | Returned response \<Rightarrow>
           (case llm_questions response of
              Inl e \<Rightarrow> Inr base_questions
            | Inr llm \<Rightarrow> Inr (base_questions @ llm)))"

definition ollama_validate ::
  "chat_outcome \<Rightarrow> config \<Rightarrow> string \<Rightarrow> pydict \<Rightarrow> pydict \<Rightarrow> string list option \<Rightarrow>
   error + ValidationResult" where
  "ollama_validate outcome = validate_with (ollama_generate_adversarial_questions outcome)"

section \<open>A score and its issues under a further discount\<close>

text \<open>
  A state of the consistency check scaled by a factor and prefixed with issues: what an
  earlier rule that fired leaves of the state the later rules would have built.
\<close>

definition scaled :: "rat \<Rightarrow> string list \<Rightarrow> rat \<times> string list \<Rightarrow> rat \<times> string list" where
  "scaled k pre st = (k * fst st, pre @ snd st)"

section \<open>Inputs of the repository's tests\<close>

text \<open>\<^verbatim>\<open>test_high_confidence_low_data_quality\<close>.\<close>

definition overconfident_analysis :: pydict where
  "overconfident_analysis = [(''confidence'', PFloat (95 / 100)), (''score'', PInt 8)]"

definition low_quality_data :: pydict where
  "low_quality_data = [(''data_quality_score'', PInt 30)]"

text \<open>\<^verbatim>\<open>test_issue_penalty_applied\<close>.\<close>

definition penalized_analysis :: pydict where
  "penalized_analysis =
     [(''score'', PFloat (99 / 10)), (''confidence'', PFloat (99 / 100)),
      (''findings'', PList []), (''recommendations'', PList [PStr ''Buy''])]"

definition penalized_data :: pydict where
  "penalized_data =
     [(''data_quality_score'', PInt 20),
      (''sources_failed'', PList [PStr ''a'', PStr ''b'', PStr ''c''])]"

text \<open>\<^verbatim>\<open>test_missing_critical_source\<close>.\<close>

definition summary_analysis :: pydict where
  "summary_analysis = [(''summary'', PStr ''The company looks good'')]"

definition three_sources_data :: pydict where
  "three_sources_data =
     [(''earnings'', PDict [(''important'', PStr ''data'')]),
      (''filings'', PDict [(''sec'', PStr ''documents'')]),
      (''analyst'', PDict [(''ratings'', PStr ''data'')])]"

section \<open>The validator on the inputs of its own tests\<close>

text \<open>
  Claim C1. For the empty analysis and the empty raw data the spec and the test
  \<^verbatim>\<open>test_empty_analysis\<close> ask for \<^verbatim>\<open>should_rerun == True\<close>. The validator with the
  default configuration finds no source to miss and no rule to fire: every score is 1,
  there is no issue, and \<^verbatim>\<open>should_rerun\<close> is \<^verbatim>\<open>False\<close>.
\<close>

theorem validate_empty_passes:
  "validate default_config entity_id [] [] None =
     Inr \<lparr>overall_confidence = 1, completeness_score = 1, consistency_score = 1,
          logic_score = 1, issues_found = [],
          adversarial_questions = fixed_questions,
          recommended_actions = [''APPROVED: Analysis passes adversarial validation''],
          should_rerun = False\<rparr>"
  by code_simp

text \<open>
  Claim C2. \<^verbatim>\<open>validate\<close> is not total: on the input of the test \<^verbatim>\<open>test_none_values\<close>
  the question generator compares \<^verbatim>\<open>None < 80\<close>, and on a string-valued confidence the
  consistency check compares \<^verbatim>\<open>'high' > 0.8\<close>; both raise \<^verbatim>\<open>TypeError\<close>.
\<close>

theorem validate_raises_type_error:
  "validate default_config entity_id
     [(''score'', PNone), (''confidence'', PNone)] [(''data_quality_score'', PNone)] None
     = Inl TypeError \<and>
   validate default_config entity_id [(''confidence'', PStr ''high'')] [] None = Inl TypeError"
  by code_simp

section \<open>Rounding, and what a successful validation returns\<close>

lemma round_half_even_lower: "\<lfloor>x\<rfloor> \<le> round_half_even x"
  by (simp add: round_half_even_def Let_def)

lemma round_half_even_upper: "round_half_even x \<le> \<lceil>x\<rceil>"
  unfolding round_half_even_def Let_def
  by (auto simp: ceiling_altdef)

lemma round_half_even_close: "\<bar>of_int (round_half_even x) - x\<bar> \<le> 1 / 2"
proof -
  define d where "d = x - of_int \<lfloor>x\<rfloor>"
  have d: "0 \<le> d" "d < 1" unfolding d_def by linarith+
  have x: "x = of_int \<lfloor>x\<rfloor> + d" unfolding d_def by simp
  consider "d < 1 / 2" | "1 / 2 < d" | "d = 1 / 2" by linarith
  then show ?thesis
  proof cases
    case 1
    then have "round_half_even x = \<lfloor>x\<rfloor>"
      by (simp add: round_half_even_def Let_def d_def)
    then show ?thesis using d 1 x by linarith
  next
    case 2
    then have "round_half_even x = \<lfloor>x\<rfloor> + 1"
      by (simp add: round_half_even_def Let_def d_def)
    then have "of_int (round_half_even x) - x = 1 - d" using x by simp
    then show ?thesis using d 2 by linarith
  next
    case 3
    then have "round_half_even x = \<lfloor>x\<rfloor> \<or> round_half_even x = \<lfloor>x\<rfloor> + 1"
      by (simp add: round_half_even_def Let_def d_def)
    then have "of_int (round_half_even x) - x = - d \<or> of_int (round_half_even x) - x = 1 - d"
      using x by auto
    then show ?thesis using 3 by auto
  qed
qed

lemma round3_nonneg: "0 \<le> x \<Longrightarrow> 0 \<le> round3 x"
proof -
  assume "0 \<le> x"
  then have "0 \<le> \<lfloor>x * 1000\<rfloor>" by simp
  then have "0 \<le> round_half_even (x * 1000)"
    using round_half_even_lower [of "x * 1000"] by linarith
  then show ?thesis by (simp add: round3_def)
qed

lemma round3_le_one: "x \<le> 1 \<Longrightarrow> round3 x \<le> 1"
proof -
  assume "x \<le> 1"
  then have "x * 1000 \<le> 1000" by simp
  then have "\<lceil>x * 1000\<rceil> \<le> 1000" by (simp add: ceiling_le_iff)
  then have "round_half_even (x * 1000) \<le> 1000"
    using round_half_even_upper [of "x * 1000"] by linarith
  then have "(of_int (round_half_even (x * 1000)) :: rat) \<le> 1000"
    by (metis of_int_le_iff of_int_numeral)
  then show ?thesis by (simp add: round3_def)
qed

lemma round3_close: "\<bar>round3 x - x\<bar> \<le> 1 / 2000"
proof -
  have "\<bar>of_int (round_half_even (x * 1000)) - x * 1000\<bar> \<le> 1 / 2"
    by (rule round_half_even_close)
  then show ?thesis
    unfolding round3_def by (simp add: abs_le_iff field_simps)
qed

lemma validate_with_Inr:
  "validate_with qf cfg e a rd ef = Inr r \<Longrightarrow>
   \<exists>consistency logic questions.
     check_consistency a rd = Inr consistency \<and> check_logic a rd = Inr logic \<and>
     qf a rd (snd (check_completeness a rd ef) @ snd consistency @ snd logic) = Inr questions \<and>
     r = \<lparr>overall_confidence =
            round3 (max 0 (fst (check_completeness a rd ef) * completeness_weight cfg +
                   fst consistency * consistency_weight cfg +
                   fst logic * logic_weight cfg -
                   min (of_nat (length (snd (check_completeness a rd ef) @ snd consistency @ snd logic)) * (5 / 100)) (3 / 10))),
          completeness_score = round3 (fst (check_completeness a rd ef)),
          consistency_score = round3 (fst consistency),
          logic_score = round3 (fst logic),
          issues_found = snd (check_completeness a rd ef) @ snd consistency @ snd logic,
          adversarial_questions = questions,
          recommended_actions =
            generate_recommendations (fst (check_completeness a rd ef)) (fst consistency) (fst logic)
              (snd (check_completeness a rd ef) @ snd consistency @ snd logic) questions,
          should_rerun =
            (max 0 (fst (check_completeness a rd ef) * completeness_weight cfg +
                   fst consistency * consistency_weight cfg +
                   fst logic * logic_weight cfg -
                   min (of_nat (length (snd (check_completeness a rd ef) @ snd consistency @ snd logic)) * (5 / 100)) (3 / 10))
               < confidence_threshold cfg \<or>
             int (length (snd (check_completeness a rd ef) @ snd consistency @ snd logic))
               > max_issues_before_rerun cfg)\<rparr>"
  unfolding validate_with_def bind_def Let_def
  by (auto split: sum.splits)


lemma discount_bounds:
  assumes "discount c m f st = Inr st'" "0 < f" "f \<le> 1" "0 < fst st" "fst st \<le> 1"
  shows "0 < fst st' \<and> fst st' \<le> 1"
proof (cases "c = Inr True")
  case True
  with assms(1) obtain msg where "st' = (fst st * f, snd st @ [msg])"
    by (auto simp: discount_def bind_def split: sum.splits)
  moreover have "fst st * f \<le> 1"
    using assms(2-5) by (meson less_eq_rat_def mult_le_one)
  ultimately show ?thesis using assms(2,4) by simp
next
  case False
  with assms(1) have "st' = st"
    by (auto simp: discount_def bind_def split: sum.splits if_splits)
  then show ?thesis using assms(4,5) by simp
qed

lemma contradictions_bounds:
  "0 < fst st \<Longrightarrow> fst st \<le> 1 \<Longrightarrow>
   0 < fst (contradictions txt prs st) \<and> fst (contradictions txt prs st) \<le> 1"
proof (induction prs arbitrary: st)
  case Nil
  then show ?case by simp
next
  case (Cons pr prs)
  have "fst st * (9 / 10) \<le> 1" using Cons.prems by simp
  moreover have "0 < fst st * (9 / 10)" using Cons.prems by simp
  ultimately show ?case using Cons.IH Cons.prems by simp
qed

lemma check_consistency_bounds:
  assumes "check_consistency a rd = Inr st"
  shows "0 < fst st \<and> fst st \<le> 1"
proof -
  from assms obtain st1 st2 st3 fs where
    s1: "discount (high_confidence_low_quality (get a ''confidence'' (PInt 0))
                     (get rd ''data_quality_score'' (PInt 100)))
           (low_quality_issue (get a ''confidence'' (PInt 0))
              (get rd ''data_quality_score'' (PInt 100))) (6 / 10) (1, []) = Inr st1" and
    s2: "discount (high_score_failed_sources (score_of a) (get rd ''sources_failed'' (PList [])))
           (failed_sources_issue (score_of a) (get rd ''sources_failed'' (PList [])))
           (7 / 10) st1 = Inr st2" and
    s3: "discount (high_confidence_few_findings (get a ''confidence'' (PInt 0)) (findings_of a))
           (few_findings_issue (get a ''confidence'' (PInt 0)) (findings_of a))
           (8 / 10) st2 = Inr st3" and
    st: "st = contradictions (lower (join '' '' (map py_str fs))) contradiction_pairs st3"
    unfolding check_consistency_def Let_def bind_def
    by (auto split: sum.splits)
  have b1: "0 < fst st1 \<and> fst st1 \<le> 1" using discount_bounds [OF s1] by simp
  have b2: "0 < fst st2 \<and> fst st2 \<le> 1" using discount_bounds [OF s2] b1 by simp
  have b3: "0 < fst st3 \<and> fst st3 \<le> 1" using discount_bounds [OF s3] b2 by simp
  show ?thesis unfolding st using contradictions_bounds b3 by blast
qed

lemma check_completeness_bounds:
  "0 \<le> fst (check_completeness a rd ef) \<and> fst (check_completeness a rd ef) \<le> 1"
proof -
  have "length (sources_referenced a rd) \<le> length (available_sources rd)"
    by (simp add: sources_referenced_def)
  then have "(of_nat (length (sources_referenced a rd)) :: rat) \<le> of_nat (length (available_sources rd))"
    by simp
  then show ?thesis
    by (simp add: check_completeness_def Let_def divide_le_eq_1)
qed

lemma validate_Inr:
  assumes "validate cfg e a rd ef = Inr r"
  obtains consistency logic where
    "check_consistency a rd = Inr consistency" "check_logic a rd = Inr logic"
    "issues_found r = snd (check_completeness a rd ef) @ snd consistency @ snd logic"
    "overall_confidence r =
       round3 (max 0 (fst (check_completeness a rd ef) * completeness_weight cfg +
                      fst consistency * consistency_weight cfg +
                      fst logic * logic_weight cfg -
                      min (of_nat (length (issues_found r)) * (5 / 100)) (3 / 10)))"
    "completeness_score r = round3 (fst (check_completeness a rd ef))"
    "consistency_score r = round3 (fst consistency)"
    "logic_score r = round3 (fst logic)"
    "should_rerun r =
       (max 0 (fst (check_completeness a rd ef) * completeness_weight cfg +
               fst consistency * consistency_weight cfg +
               fst logic * logic_weight cfg -
               min (of_nat (length (issues_found r)) * (5 / 100)) (3 / 10))
          < confidence_threshold cfg \<or>
        int (length (issues_found r)) > max_issues_before_rerun cfg)"
proof -
  from assms obtain consistency logic questions where
    c: "check_consistency a rd = Inr consistency" and l: "check_logic a rd = Inr logic" and
    r: "r = \<lparr>overall_confidence =
            round3 (max 0 (fst (check_completeness a rd ef) * completeness_weight cfg +
                   fst consistency * consistency_weight cfg +
                   fst logic * logic_weight cfg -
                   min (of_nat (length (snd (check_completeness a rd ef) @ snd consistency @ snd logic)) * (5 / 100)) (3 / 10))),
          completeness_score = round3 (fst (check_completeness a rd ef)),
          consistency_score = round3 (fst consistency),
          logic_score = round3 (fst logic),
          issues_found = snd (check_completeness a rd ef) @ snd consistency @ snd logic,
          adversarial_questions = questions,
          recommended_actions =
            generate_recommendations (fst (check_completeness a rd ef)) (fst consistency) (fst logic)
              (snd (check_completeness a rd ef) @ snd consistency @ snd logic) questions,
          should_rerun =
            (max 0 (fst (check_completeness a rd ef) * completeness_weight cfg +
                   fst consistency * consistency_weight cfg +
                   fst logic * logic_weight cfg -
                   min (of_nat (length (snd (check_completeness a rd ef) @ snd consistency @ snd logic)) * (5 / 100)) (3 / 10))
               < confidence_threshold cfg \<or>
             int (length (snd (check_completeness a rd ef) @ snd consistency @ snd logic))
               > max_issues_before_rerun cfg)\<rparr>"
    unfolding validate_def by (blast dest: validate_with_Inr)
  have i: "issues_found r = snd (check_completeness a rd ef) @ snd consistency @ snd logic"
    by (subst r) simp
  have o: "overall_confidence r =
       round3 (max 0 (fst (check_completeness a rd ef) * completeness_weight cfg +
                      fst consistency * consistency_weight cfg +
                      fst logic * logic_weight cfg -
                      min (of_nat (length (issues_found r)) * (5 / 100)) (3 / 10)))"
    unfolding i by (subst r) (simp only: ValidationResult.simps)
  have s: "should_rerun r =
       (max 0 (fst (check_completeness a rd ef) * completeness_weight cfg +
               fst consistency * consistency_weight cfg +
               fst logic * logic_weight cfg -
               min (of_nat (length (issues_found r)) * (5 / 100)) (3 / 10))
          < confidence_threshold cfg \<or>
        int (length (issues_found r)) > max_issues_before_rerun cfg)"
    unfolding i by (subst r) (simp only: ValidationResult.simps)
  have p: "completeness_score r = round3 (fst (check_completeness a rd ef))"
    by (subst r) simp
  have q: "consistency_score r = round3 (fst consistency)"
    by (subst r) simp
  have t: "logic_score r = round3 (fst logic)"
    by (subst r) simp
  show thesis by (rule that [OF c l i o p q t s])
qed

lemma validate_overconfident:
  "validate default_config ''TEST'' overconfident_analysis low_quality_data None =
     Inr \<lparr>overall_confidence = 151 / 250, completeness_score = 1,
          consistency_score = 12 / 25, logic_score = 7 / 10,
          issues_found =
            [''High confidence (95%) despite low data quality (30%)'',
             ''High confidence (95%) but only 0 findings'',
             ''Very high confidence (95%) with limited data sources (0 successful)''],
          adversarial_questions =
            ''Data quality is only 30% - what are we potentially missing?'' #
            fixed_questions @ [lower_confidence_question],
          recommended_actions =
            [''REVIEW: Manual review needed for inconsistencies'',
             ''DEEP_DIVE: Many unanswered questions require investigation''],
          should_rerun = True\<rparr>"
  by code_simp

lemma validate_overconfident_heavy:
  "validate heavy_config ''TEST'' overconfident_analysis low_quality_data None =
     Inr \<lparr>overall_confidence = 657 / 500, completeness_score = 1,
          consistency_score = 12 / 25, logic_score = 7 / 10,
          issues_found =
            [''High confidence (95%) despite low data quality (30%)'',
             ''High confidence (95%) but only 0 findings'',
             ''Very high confidence (95%) with limited data sources (0 successful)''],
          adversarial_questions =
            ''Data quality is only 30% - what are we potentially missing?'' #
            fixed_questions @ [lower_confidence_question],
          recommended_actions =
            [''REVIEW: Manual review needed for inconsistencies'',
             ''DEEP_DIVE: Many unanswered questions require investigation''],
          should_rerun = False\<rparr>"
  by code_simp

lemma validate_penalized:
  "validate default_config ''TEST'' penalized_analysis penalized_data None =
     Inr \<lparr>overall_confidence = 289 / 1000, completeness_score = 1,
          consistency_score = 42 / 125, logic_score = 147 / 500,
          issues_found =
            [''High confidence (99%) despite low data quality (20%)'',
             ''High score (9.9) but 3 data sources failed'',
             ''High confidence (99%) but only 0 findings'',
             ''Very high confidence (99%) with limited data sources (0 successful)'',
             ''Extreme score (9.9) without sufficient supporting findings'',
             ''Recommendations provided without supporting findings''],
          adversarial_questions =
            ''How confident can we be with 3 data sources unavailable?'' #
            ''Data quality is only 20% - what are we potentially missing?'' #
            fixed_questions @ [lower_confidence_question],
          recommended_actions =
            [''REVIEW: Manual review needed for inconsistencies'',
             ''RERUN: Conclusions may not follow from evidence'',
             ''ESCALATE: Too many issues for automated resolution'',
             ''DEEP_DIVE: Many unanswered questions require investigation''],
          should_rerun = True\<rparr>"
  by code_simp

section \<open>The aggregation\<close>

text \<open>
  Claim C3. Whenever \<^verbatim>\<open>validate\<close> returns a result, its \<^verbatim>\<open>overall_confidence\<close> is the
  weighted sum of the three scores with the configured weights as they are (nothing
  divides by their sum), minus the penalty \<^verbatim>\<open>min(0.05 * len(issues_found), 0.3)\<close>,
  clamped at 0 and rounded to three decimals: a multiple of 1/1000 within 1/2000 of the
  clamped value. \<^verbatim>\<open>issues_found\<close> is the three issue lists in order.
\<close>

theorem validate_overall_confidence:
  assumes "validate cfg e a rd ef = Inr r"
  shows "\<exists>consistency logic.
     check_consistency a rd = Inr consistency \<and> check_logic a rd = Inr logic \<and>
     issues_found r = snd (check_completeness a rd ef) @ snd consistency @ snd logic \<and>
     overall_confidence r =
       round3 (max 0 (fst (check_completeness a rd ef) * completeness_weight cfg +
                      fst consistency * consistency_weight cfg +
                      fst logic * logic_weight cfg -
                      min (of_nat (length (issues_found r)) * (5 / 100)) (3 / 10))) \<and>
     \<bar>overall_confidence r -
        max 0 (fst (check_completeness a rd ef) * completeness_weight cfg +
               fst consistency * consistency_weight cfg +
               fst logic * logic_weight cfg -
               min (of_nat (length (issues_found r)) * (5 / 100)) (3 / 10))\<bar> \<le> 1 / 2000 \<and>
     (\<exists>k. overall_confidence r = of_int k / 1000)"
proof -
  from assms obtain consistency logic where
    c: "check_consistency a rd = Inr consistency" and l: "check_logic a rd = Inr logic" and
    i: "issues_found r = snd (check_completeness a rd ef) @ snd consistency @ snd logic" and
    o: "overall_confidence r =
       round3 (max 0 (fst (check_completeness a rd ef) * completeness_weight cfg +
                      fst consistency * consistency_weight cfg +
                      fst logic * logic_weight cfg -
                      min (of_nat (length (issues_found r)) * (5 / 100)) (3 / 10)))"
    by (rule validate_Inr)
  have close: "\<bar>overall_confidence r -
        max 0 (fst (check_completeness a rd ef) * completeness_weight cfg +
               fst consistency * consistency_weight cfg +
               fst logic * logic_weight cfg -
               min (of_nat (length (issues_found r)) * (5 / 100)) (3 / 10))\<bar> \<le> 1 / 2000"
    unfolding o by (rule round3_close)
  have grid: "\<exists>k. overall_confidence r = of_int k / 1000"
    unfolding o round3_def by blast
  from c l i o close grid show ?thesis by blast
qed

theorem validate_overall_confidence_witness:
  "\<exists>r consistency logic.
     validate heavy_config ''TEST'' overconfident_analysis low_quality_data None = Inr r \<and>
     check_consistency overconfident_analysis low_quality_data = Inr consistency \<and>
     check_logic overconfident_analysis low_quality_data = Inr logic \<and>
     overall_confidence r =
       round3 (max 0 (fst (check_completeness overconfident_analysis low_quality_data None) *
                        completeness_weight heavy_config +
                      fst consistency * consistency_weight heavy_config +
                      fst logic * logic_weight heavy_config -
                      min (of_nat (length (issues_found r)) * (5 / 100)) (3 / 10))) \<and>
     overall_confidence r = 657 / 500"
proof -
  have "overall_confidence
          \<lparr>overall_confidence = 657 / 500, completeness_score = 1,
           consistency_score = 12 / 25, logic_score = 7 / 10,
           issues_found =
             [''High confidence (95%) despite low data quality (30%)'',
              ''High confidence (95%) but only 0 findings'',
              ''Very high confidence (95%) with limited data sources (0 successful)''],
           adversarial_questions =
             ''Data quality is only 30% - what are we potentially missing?'' #
             fixed_questions @ [lower_confidence_question],
           recommended_actions =
             [''REVIEW: Manual review needed for inconsistencies'',
              ''DEEP_DIVE: Many unanswered questions require investigation''],
           should_rerun = False\<rparr> = (657 / 500 :: rat)"
    by simp
  then show ?thesis
    using validate_overall_confidence [OF validate_overconfident_heavy]
      validate_overconfident_heavy
    by blast
qed

text \<open>
  Claim C4. Whenever \<^verbatim>\<open>validate\<close> returns a result, \<^verbatim>\<open>should_rerun\<close> holds exactly when
  the penalized confidence before rounding is below the configured threshold or there
  are more issues than the configured maximum.
\<close>

theorem validate_should_rerun:
  assumes "validate cfg e a rd ef = Inr r"
  shows "\<exists>consistency logic.
     check_consistency a rd = Inr consistency \<and> check_logic a rd = Inr logic \<and>
     should_rerun r =
       (max 0 (fst (check_completeness a rd ef) * completeness_weight cfg +
               fst consistency * consistency_weight cfg +
               fst logic * logic_weight cfg -
               min (of_nat (length (issues_found r)) * (5 / 100)) (3 / 10))
          < confidence_threshold cfg \<or>
        int (length (issues_found r)) > max_issues_before_rerun cfg)"
proof -
  from assms obtain consistency logic where
    c: "check_consistency a rd = Inr consistency" and l: "check_logic a rd = Inr logic" and
    s: "should_rerun r =
       (max 0 (fst (check_completeness a rd ef) * completeness_weight cfg +
               fst consistency * consistency_weight cfg +
               fst logic * logic_weight cfg -
               min (of_nat (length (issues_found r)) * (5 / 100)) (3 / 10))
          < confidence_threshold cfg \<or>
        int (length (issues_found r)) > max_issues_before_rerun cfg)"
    by (rule validate_Inr)
  from c l s show ?thesis by blast
qed

theorem validate_should_rerun_witness:
  "\<exists>r consistency logic.
     validate default_config ''TEST'' penalized_analysis penalized_data None = Inr r \<and>
     check_consistency penalized_analysis penalized_data = Inr consistency \<and>
     check_logic penalized_analysis penalized_data = Inr logic \<and>
     should_rerun r =
       (max 0 (fst (check_completeness penalized_analysis penalized_data None) *
                 completeness_weight default_config +
               fst consistency * consistency_weight default_config +
               fst logic * logic_weight default_config -
               min (of_nat (length (issues_found r)) * (5 / 100)) (3 / 10))
          < confidence_threshold default_config \<or>
        int (length (issues_found r)) > max_issues_before_rerun default_config)"
  using validate_should_rerun [OF validate_penalized] validate_penalized
  by blast

section \<open>Ranges of the scores\<close>

text \<open>
  Claim C5. The completeness score lies in [0, 1]; the consistency score starts at 1
  and is only multiplied by factors in (0, 1], so it lies in (0, 1]; the rounded scores
  of a result lie in [0, 1] and its \<^verbatim>\<open>overall_confidence\<close> is never negative.
\<close>

theorem scores_in_unit_interval:
  "0 \<le> fst (check_completeness a rd ef) \<and> fst (check_completeness a rd ef) \<le> 1 \<and>
   (\<forall>st. check_consistency a rd = Inr st \<longrightarrow> 0 < fst st \<and> fst st \<le> 1) \<and>
   (\<forall>r. validate cfg e a rd ef = Inr r \<longrightarrow>
      0 \<le> completeness_score r \<and> completeness_score r \<le> 1 \<and>
      0 \<le> consistency_score r \<and> consistency_score r \<le> 1 \<and>
      0 \<le> overall_confidence r)"
proof -
  have "0 \<le> completeness_score r \<and> completeness_score r \<le> 1 \<and>
        0 \<le> consistency_score r \<and> consistency_score r \<le> 1 \<and>
        0 \<le> overall_confidence r"
    if v: "validate cfg e a rd ef = Inr r" for r
  proof -
    from v obtain consistency logic where
      c: "check_consistency a rd = Inr consistency" and
      l: "check_logic a rd = Inr logic" and
      r1: "completeness_score r = round3 (fst (check_completeness a rd ef))" and
      r2: "consistency_score r = round3 (fst consistency)" and
      r3: "overall_confidence r =
             round3 (max 0 (fst (check_completeness a rd ef) * completeness_weight cfg +
                      fst consistency * consistency_weight cfg +
                      fst logic * logic_weight cfg -
                      min (of_nat (length (issues_found r)) * (5 / 100)) (3 / 10)))"
      by (rule validate_Inr)
    have "0 \<le> fst consistency \<and> fst consistency \<le> 1"
      using check_consistency_bounds [OF c] by simp
    moreover have "0 \<le> overall_confidence r"
      unfolding r3 by (rule round3_nonneg) simp
    ultimately show ?thesis
      using r1 r2 check_completeness_bounds [of a rd ef]
      by (simp add: round3_nonneg round3_le_one)
  qed
  then show ?thesis
    using check_completeness_bounds [of a rd ef] check_consistency_bounds by blast
qed

theorem scores_in_unit_interval_witness:
  "\<exists>st r.
     check_consistency overconfident_analysis low_quality_data = Inr st \<and>
     validate default_config ''TEST'' overconfident_analysis low_quality_data None = Inr r \<and>
     0 < fst st \<and> fst st \<le> 1 \<and>
     0 \<le> completeness_score r \<and> completeness_score r \<le> 1 \<and>
     0 \<le> consistency_score r \<and> consistency_score r \<le> 1 \<and>
     0 \<le> overall_confidence r"
proof -
  obtain consistency where c: "check_consistency overconfident_analysis low_quality_data = Inr consistency"
    using validate_Inr [OF validate_overconfident] by blast
  show ?thesis
    using scores_in_unit_interval
      [of overconfident_analysis low_quality_data None default_config "''TEST''"]
      c validate_overconfident
    by blast
qed

section \<open>The low-data-quality rule\<close>

lemma scaled_step:
  "(fst (scaled k pre st) * f, snd (scaled k pre st) @ [m]) = scaled k pre (fst st * f, snd st @ [m])"
  by (simp add: scaled_def mult.assoc)

lemma discount_scaled:
  "discount c m f (scaled k pre st) =
     (case discount c m f st of Inl err \<Rightarrow> Inl err | Inr st' \<Rightarrow> Inr (scaled k pre st'))"
proof (cases c)
  case (Inl err)
  then show ?thesis by (simp add: discount_def bind_def)
next
  case (Inr fires)
  show ?thesis
  proof (cases fires)
    case False
    with Inr show ?thesis by (simp add: discount_def bind_def)
  next
    case True
    show ?thesis
    proof (cases m)
      case (Inl err)
      with Inr True show ?thesis by (simp add: discount_def bind_def)
    next
      case (Inr msg)
      with \<open>c = Inr fires\<close> True show ?thesis
        by (simp only: discount_def bind_def sum.case if_True scaled_step)
    qed
  qed
qed

lemma contradictions_scaled:
  "contradictions txt prs (scaled k pre st) = scaled k pre (contradictions txt prs st)"
proof (induction prs arbitrary: st)
  case Nil
  show ?case by simp
next
  case (Cons pr prs)
  show ?case
  proof (cases "contains (fst pr) txt \<and> contains (snd pr) txt")
    case True
    then have "contradictions txt (pr # prs) (scaled k pre st) =
               contradictions txt prs
                 (fst (scaled k pre st) * (9 / 10), snd (scaled k pre st) @ [contradiction_issue pr])"
      by simp
    also have "\<dots> = contradictions txt prs
                 (scaled k pre (fst st * (9 / 10), snd st @ [contradiction_issue pr]))"
      by (simp only: scaled_step)
    also have "\<dots> = scaled k pre
                 (contradictions txt prs (fst st * (9 / 10), snd st @ [contradiction_issue pr]))"
      by (rule Cons.IH)
    also have "\<dots> = scaled k pre (contradictions txt (pr # prs) st)"
      using True by simp
    finally show ?thesis .
  next
    case False
    then have "contradictions txt (pr # prs) (scaled k pre st) =
               contradictions txt prs (scaled k pre st)"
      by auto
    also have "\<dots> = scaled k pre (contradictions txt prs st)"
      by (rule Cons.IH)
    also have "\<dots> = scaled k pre (contradictions txt (pr # prs) st)"
      using False by auto
    finally show ?thesis .
  qed
qed

lemma get_absent: "map_of d k = None \<Longrightarrow> get d k dflt = dflt"
  by (simp add: get_def)

lemma get_Cons: "get ((k', v) # d) k dflt = (if k = k' then v else get d k dflt)"
  by (simp add: get_def)

lemma truthy_num: "num_of v = Some c \<Longrightarrow> c \<noteq> 0 \<Longrightarrow> truthy v"
  by (cases v) (auto split: if_splits)

lemma fmt_pct_num: "fmt_pct v = Inr p \<Longrightarrow> num_of v = Some c \<Longrightarrow> p = percent c"
  by (cases v) (auto split: if_splits)

lemma consistency_tail_scaled:
  "bind (discount c2 m2 f2 (scaled k pre st)) (\<lambda>st2.
     bind (discount c3 m3 f3 st2) (\<lambda>st3.
       bind fsr (\<lambda>fs. Inr (contradictions (g fs) prs st3)))) =
   (case bind (discount c2 m2 f2 st) (\<lambda>st2.
           bind (discount c3 m3 f3 st2) (\<lambda>st3.
             bind fsr (\<lambda>fs. Inr (contradictions (g fs) prs st3)))) of
      Inl err \<Rightarrow> Inl err
    | Inr r \<Rightarrow> Inr (scaled k pre r))"
proof (cases "discount c2 m2 f2 st")
  case (Inl err)
  then show ?thesis by (simp add: discount_scaled bind_def)
next
  case s2: (Inr st2)
  show ?thesis
  proof (cases "discount c3 m3 f3 st2")
    case (Inl err)
    with s2 show ?thesis by (simp add: discount_scaled bind_def)
  next
    case s3: (Inr st3)
    show ?thesis
    proof (cases fsr)
      case (Inl err)
      with s2 s3 show ?thesis by (simp add: discount_scaled bind_def)
    next
      case (Inr fs)
      with s2 s3 show ?thesis
        by (simp add: discount_scaled contradictions_scaled bind_def)
    qed
  qed
qed

lemma low_quality_discount:
  assumes c: "num_of (get a ''confidence'' (PInt 0)) = Some c" and hi: "8 / 10 < c"
    and q: "num_of (get rd ''data_quality_score'' (PInt 100)) = Some q" and lo: "q < 50"
    and run: "check_consistency a rd = Inr (s, issues)"
  shows "\<exists>s' rest.
           check_consistency a ((''data_quality_score'', PInt 100) # rd) = Inr (s', rest) \<and>
           s = 6 / 10 * s' \<and>
           issues = (''High confidence ('' @ percent c @ '') despite low data quality ('' @
                     py_str (get rd ''data_quality_score'' (PInt 100)) @ ''%)'') # rest"
proof -
  define confidence where "confidence = get a ''confidence'' (PInt 0)"
  define dq where "dq = get rd ''data_quality_score'' (PInt 100)"
  define tail where "tail = (\<lambda>st.
     bind (discount (high_score_failed_sources (score_of a) (get rd ''sources_failed'' (PList [])))
             (failed_sources_issue (score_of a) (get rd ''sources_failed'' (PList []))) (7 / 10) st)
       (\<lambda>st2.
     bind (discount (high_confidence_few_findings confidence (findings_of a))
             (few_findings_issue confidence (findings_of a)) (8 / 10) st2) (\<lambda>st3.
     bind (py_iter (findings_of a)) (\<lambda>fs.
       Inr (contradictions (lower (join '' '' (map py_str fs))) contradiction_pairs st3)))))"
  have t: "truthy confidence"
    using c hi unfolding confidence_def by (intro truthy_num [of _ c]) auto
  have fires: "high_confidence_low_quality confidence dq = Inr True"
    using c hi q lo t unfolding confidence_def dq_def
    by (simp add: high_confidence_low_quality_def bind_def py_gt_def py_lt_def)
  have quiet: "high_confidence_low_quality confidence (PInt 100) = Inr False"
    using c hi t unfolding confidence_def
    by (simp add: high_confidence_low_quality_def bind_def py_gt_def py_lt_def)
  have run1: "check_consistency a rd =
     bind (discount (high_confidence_low_quality confidence dq)
             (low_quality_issue confidence dq) (6 / 10) (1, [])) tail"
    unfolding check_consistency_def Let_def confidence_def dq_def tail_def ..
  have dq': "get ((''data_quality_score'', PInt 100) # rd) ''data_quality_score'' (PInt 100) = PInt 100"
    by (simp add: get_Cons)
  have sf: "get ((''data_quality_score'', PInt 100) # rd) ''sources_failed'' (PList []) =
            get rd ''sources_failed'' (PList [])"
    by (simp add: get_Cons)
  have run2: "check_consistency a ((''data_quality_score'', PInt 100) # rd) =
     bind (discount (high_confidence_low_quality confidence (PInt 100))
             (low_quality_issue confidence (PInt 100)) (6 / 10) (1, [])) tail"
    unfolding check_consistency_def Let_def dq' sf confidence_def tail_def ..
  have run2': "check_consistency a ((''data_quality_score'', PInt 100) # rd) = tail (1, [])"
    unfolding run2 quiet by (simp add: discount_def bind_def)
  obtain p where p: "fmt_pct confidence = Inr p"
    using run unfolding run1 fires
    by (cases "fmt_pct confidence")
       (simp_all add: discount_def bind_def low_quality_issue_def)
  have pc: "p = percent c"
    using p c unfolding confidence_def by (rule fmt_pct_num)
  define msg where "msg = ''High confidence ('' @ percent c @ '') despite low data quality ('' @
                     py_str dq @ ''%)''"
  have first: "discount (high_confidence_low_quality confidence dq)
             (low_quality_issue confidence dq) (6 / 10) (1, []) = Inr (scaled (6 / 10) [msg] (1, []))"
    unfolding fires by (simp add: discount_def bind_def low_quality_issue_def p pc msg_def scaled_def)
  have "tail (scaled (6 / 10) [msg] (1, [])) =
          (case tail (1, []) of Inl err \<Rightarrow> Inl err | Inr r \<Rightarrow> Inr (scaled (6 / 10) [msg] r))"
    unfolding tail_def by (rule consistency_tail_scaled)
  moreover have "tail (scaled (6 / 10) [msg] (1, [])) = Inr (s, issues)"
    using run unfolding run1 first by (simp add: bind_def)
  ultimately obtain r where r: "tail (1, []) = Inr r" and e: "(s, issues) = scaled (6 / 10) [msg] r"
    by (cases "tail (1, [])") simp_all
  have "check_consistency a ((''data_quality_score'', PInt 100) # rd) = Inr (fst r, snd r)"
    unfolding run2' r by simp
  moreover have "s = 6 / 10 * fst r" "issues = msg # snd r"
    using e by (simp_all add: scaled_def)
  ultimately show ?thesis unfolding msg_def dq_def by blast
qed

lemma check_consistency_overconfident:
  "check_consistency overconfident_analysis low_quality_data =
     Inr (12 / 25, [''High confidence (95%) despite low data quality (30%)'',
                    ''High confidence (95%) but only 0 findings''])"
  by code_simp

lemma validate_overconfident_flagged:
  "\<exists>r. validate default_config ''TEST'' overconfident_analysis low_quality_data None = Inr r \<and>
       consistency_score r < 1 \<and>
       list_ex (\<lambda>issue. contains ''confidence'' (lower issue)) (issues_found r)"
proof (intro exI conjI)
  show "validate default_config ''TEST'' overconfident_analysis low_quality_data None =
     Inr \<lparr>overall_confidence = 151 / 250, completeness_score = 1,
          consistency_score = 12 / 25, logic_score = 7 / 10,
          issues_found =
            [''High confidence (95%) despite low data quality (30%)'',
             ''High confidence (95%) but only 0 findings'',
             ''Very high confidence (95%) with limited data sources (0 successful)''],
          adversarial_questions =
            ''Data quality is only 30% - what are we potentially missing?'' #
            fixed_questions @ [lower_confidence_question],
          recommended_actions =
            [''REVIEW: Manual review needed for inconsistencies'',
             ''DEEP_DIVE: Many unanswered questions require investigation''],
          should_rerun = True\<rparr>"
    by (rule validate_overconfident)
  show "consistency_score \<lparr>overall_confidence = 151 / 250, completeness_score = 1,
          consistency_score = 12 / 25, logic_score = 7 / 10,
          issues_found =
            [''High confidence (95%) despite low data quality (30%)'',
             ''High confidence (95%) but only 0 findings'',
             ''Very high confidence (95%) with limited data sources (0 successful)''],
          adversarial_questions =
            ''Data quality is only 30% - what are we potentially missing?'' #
            fixed_questions @ [lower_confidence_question],
          recommended_actions =
            [''REVIEW: Manual review needed for inconsistencies'',
             ''DEEP_DIVE: Many unanswered questions require investigation''],
          should_rerun = True\<rparr> < 1"
    by simp
  have "list_ex (\<lambda>issue. contains ''confidence'' (lower issue))
          [''High confidence (95%) despite low data quality (30%)'',
           ''High confidence (95%) but only 0 findings'',
           ''Very high confidence (95%) with limited data sources (0 successful)'']"
    by code_simp
  then show "list_ex (\<lambda>issue. contains ''confidence'' (lower issue))
     (issues_found \<lparr>overall_confidence = 151 / 250, completeness_score = 1,
          consistency_score = 12 / 25, logic_score = 7 / 10,
          issues_found =
            [''High confidence (95%) despite low data quality (30%)'',
             ''High confidence (95%) but only 0 findings'',
             ''Very high confidence (95%) with limited data sources (0 successful)''],
          adversarial_questions =
            ''Data quality is only 30% - what are we potentially missing?'' #
            fixed_questions @ [lower_confidence_question],
          recommended_actions =
            [''REVIEW: Manual review needed for inconsistencies'',
             ''DEEP_DIVE: Many unanswered questions require investigation''],
          should_rerun = True\<rparr>)"
    by (simp only: ValidationResult.simps)
qed

text \<open>
  Claim C6. When the confidence of the analysis is a number above 0.8 and the
  \<^verbatim>\<open>data_quality_score\<close> of the raw data is a number below 50, a successful consistency
  check returns 0.6 times the score, and the issue naming both values in front of the
  issues, of the same check with a data quality of 100. On the input of the test
  \<^verbatim>\<open>test_high_confidence_low_data_quality\<close> the consistency score of the result is
  below 1 and an issue contains \<^verbatim>\<open>confidence\<close> in lower case.
\<close>

theorem high_confidence_low_quality_discount:
  "(\<forall>c q s issues.
      num_of (get a ''confidence'' (PInt 0)) = Some c \<and> 8 / 10 < c \<and>
      num_of (get rd ''data_quality_score'' (PInt 100)) = Some q \<and> q < 50 \<and>
      check_consistency a rd = Inr (s, issues) \<longrightarrow>
      (\<exists>s' rest.
         check_consistency a ((''data_quality_score'', PInt 100) # rd) = Inr (s', rest) \<and>
         s = 6 / 10 * s' \<and>
         issues = (''High confidence ('' @ percent c @ '') despite low data quality ('' @
                   py_str (get rd ''data_quality_score'' (PInt 100)) @ ''%)'') # rest)) \<and>
   (\<exists>r. validate default_config ''TEST'' overconfident_analysis low_quality_data None = Inr r \<and>
        consistency_score r < 1 \<and>
        list_ex (\<lambda>issue. contains ''confidence'' (lower issue)) (issues_found r))"
  using low_quality_discount [of a _ rd] validate_overconfident_flagged by blast

theorem high_confidence_low_quality_discount_witness:
  "\<exists>s' rest.
     check_consistency overconfident_analysis
       ((''data_quality_score'', PInt 100) # low_quality_data) = Inr (s', rest) \<and>
     (12 / 25 :: rat) = 6 / 10 * s' \<and>
     [''High confidence (95%) despite low data quality (30%)'',
      ''High confidence (95%) but only 0 findings''] =
       (''High confidence ('' @ percent (95 / 100) @ '') despite low data quality ('' @
        py_str (get low_quality_data ''data_quality_score'' (PInt 100)) @ ''%)'') # rest"
proof -
  have c: "num_of (get overconfident_analysis ''confidence'' (PInt 0)) = Some (95 / 100)"
    by (simp add: overconfident_analysis_def get_def)
  have q: "num_of (get low_quality_data ''data_quality_score'' (PInt 100)) = Some 30"
    by (simp add: low_quality_data_def get_def)
  have "num_of (get overconfident_analysis ''confidence'' (PInt 0)) = Some (95 / 100) \<and>
        (8 / 10 :: rat) < 95 / 100 \<and>
        num_of (get low_quality_data ''data_quality_score'' (PInt 100)) = Some 30 \<and>
        (30 :: rat) < 50 \<and>
        check_consistency overconfident_analysis low_quality_data =
          Inr (12 / 25, [''High confidence (95%) despite low data quality (30%)'',
                         ''High confidence (95%) but only 0 findings''])"
    using c q check_consistency_overconfident by simp
  then show ?thesis
    using high_confidence_low_quality_discount
      [of overconfident_analysis low_quality_data, THEN conjunct1, rule_format]
    by blast
qed

section \<open>The confidence questions\<close>

lemma failed_sources_questions_other:
  "failed_sources_questions sf = Inr qs \<Longrightarrow>
   lower_confidence_question \<notin> set qs \<and> raise_confidence_question \<notin> set qs"
  by (auto simp: failed_sources_questions_def bind_def lower_confidence_question_def
        raise_confidence_question_def split: if_splits sum.splits)

lemma data_quality_questions_other:
  "data_quality_questions dq = Inr qs \<Longrightarrow>
   lower_confidence_question \<notin> set qs \<and> raise_confidence_question \<notin> set qs"
  by (auto simp: data_quality_questions_def bind_def lower_confidence_question_def
        raise_confidence_question_def split: if_splits sum.splits)

lemma fixed_questions_other:
  "lower_confidence_question \<notin> set fixed_questions \<and>
   raise_confidence_question \<notin> set fixed_questions"
  by (simp add: fixed_questions_def lower_confidence_question_def raise_confidence_question_def)

lemma contradiction_questions_other:
  "lower_confidence_question \<notin> set (contradiction_questions iss) \<and>
   raise_confidence_question \<notin> set (contradiction_questions iss)"
  by (simp add: contradiction_questions_def lower_confidence_question_def
        raise_confidence_question_def)

lemma questions_differ: "lower_confidence_question \<noteq> raise_confidence_question"
  by (simp add: lower_confidence_question_def raise_confidence_question_def)

lemma confidence_questions_lower:
  "confidence_questions c = Inr qs \<Longrightarrow>
   lower_confidence_question \<in> set qs \<longleftrightarrow> (\<exists>q. num_of c = Some q \<and> 8 / 10 < q)"
  using questions_differ
  by (cases c) (auto simp: confidence_questions_def bind_def py_gt_def py_lt_def
        split: if_splits sum.splits option.splits)

lemma confidence_questions_raise:
  "confidence_questions c = Inr qs \<Longrightarrow>
   raise_confidence_question \<in> set qs \<longleftrightarrow> (\<exists>q. num_of c = Some q \<and> q \<noteq> 0 \<and> q < 5 / 10)"
  using questions_differ
  by (cases c) (auto simp: confidence_questions_def bind_def py_gt_def py_lt_def
        split: if_splits sum.splits option.splits)

lemma low_confidence_questions:
  "generate_adversarial_questions [(''confidence'', PFloat (3 / 10))] [] [] =
     Inr (fixed_questions @ [raise_confidence_question])"
  by code_simp

text \<open>
  Claim C7, as the code has it. When the question generator returns, the
  confidence-lowering question is among the questions exactly when the confidence is a
  number above 0.8, and the confidence-raising question exactly when it is a number
  below 0.5 other than zero; never both, and neither when the key is absent. A
  confidence of 0, 0.0 or \<^verbatim>\<open>False\<close> is falsy: \<^verbatim>\<open>confidence and confidence < 0.5\<close>
  treats it like an absent one.
\<close>

theorem confidence_question_rule:
  assumes "generate_adversarial_questions a rd iss = Inr qs"
  shows "(lower_confidence_question \<in> set qs \<longleftrightarrow>
            (\<exists>q. num_of (get a ''confidence'' (PInt 0)) = Some q \<and> 8 / 10 < q)) \<and>
         (raise_confidence_question \<in> set qs \<longleftrightarrow>
            (\<exists>q. num_of (get a ''confidence'' (PInt 0)) = Some q \<and> q \<noteq> 0 \<and> q < 5 / 10)) \<and>
         \<not> (lower_confidence_question \<in> set qs \<and> raise_confidence_question \<in> set qs) \<and>
         (map_of a ''confidence'' = None \<longrightarrow>
            lower_confidence_question \<notin> set qs \<and> raise_confidence_question \<notin> set qs)"
proof -
  from assms obtain q1 q2 q3 where
    q1: "failed_sources_questions (get rd ''sources_failed'' (PList [])) = Inr q1" and
    q2: "data_quality_questions (get rd ''data_quality_score'' (PInt 100)) = Inr q2" and
    q3: "confidence_questions (get a ''confidence'' (PInt 0)) = Inr q3" and
    qs: "qs = q1 @ q2 @ fixed_questions @ q3 @ contradiction_questions iss"
    unfolding generate_adversarial_questions_def bind_def
    by (auto split: sum.splits)
  have l: "lower_confidence_question \<in> set qs \<longleftrightarrow> lower_confidence_question \<in> set q3"
    unfolding qs
    using failed_sources_questions_other [OF q1] data_quality_questions_other [OF q2]
      fixed_questions_other contradiction_questions_other [of iss]
    by auto
  have r: "raise_confidence_question \<in> set qs \<longleftrightarrow> raise_confidence_question \<in> set q3"
    unfolding qs
    using failed_sources_questions_other [OF q1] data_quality_questions_other [OF q2]
      fixed_questions_other contradiction_questions_other [of iss]
    by auto
  have l': "lower_confidence_question \<in> set qs \<longleftrightarrow>
            (\<exists>q. num_of (get a ''confidence'' (PInt 0)) = Some q \<and> 8 / 10 < q)"
    using l confidence_questions_lower [OF q3] by simp
  have r': "raise_confidence_question \<in> set qs \<longleftrightarrow>
            (\<exists>q. num_of (get a ''confidence'' (PInt 0)) = Some q \<and> q \<noteq> 0 \<and> q < 5 / 10)"
    using r confidence_questions_raise [OF q3] by simp
  have excl: "\<not> (lower_confidence_question \<in> set qs \<and> raise_confidence_question \<in> set qs)"
    unfolding l' r' by auto
  have absent: "map_of a ''confidence'' = None \<longrightarrow>
            lower_confidence_question \<notin> set qs \<and> raise_confidence_question \<notin> set qs"
    unfolding l' r' by (auto simp: get_def)
  from l' r' excl absent show ?thesis by blast
qed

theorem confidence_question_rule_witness:
  "raise_confidence_question \<in> set (fixed_questions @ [raise_confidence_question]) \<and>
   (\<exists>q. num_of (get [(''confidence'', PFloat (3 / 10))] ''confidence'' (PInt 0)) = Some q \<and>
        q \<noteq> 0 \<and> q < 5 / 10) \<and>
   lower_confidence_question \<notin> set (fixed_questions @ [raise_confidence_question])"
  using confidence_question_rule [OF low_confidence_questions]
  by simp

text \<open>
  Claim C7 as stated fails: a confidence of 0 is defined and below 0.5, and no
  confidence-raising question is emitted.
\<close>

theorem zero_confidence_no_question:
  "map_of [(''confidence'', PInt 0)] ''confidence'' = Some (PInt 0) \<and>
   num_of (PInt 0) = Some 0 \<and> (0 :: rat) < 5 / 10 \<and>
   generate_adversarial_questions [(''confidence'', PInt 0)] [] [] = Inr fixed_questions \<and>
   raise_confidence_question \<notin> set fixed_questions \<and>
   generate_adversarial_questions [(''confidence'', PFloat 0)] [] [] = Inr fixed_questions"
  by code_simp

section \<open>The completeness score as a ratio\<close>

lemma is_available_iff:
  "is_available kv \<longleftrightarrow>
     \<not> (\<not> truthy (snd kv) \<or> fst kv \<in> set reserved_keys \<or>
        (\<exists>d. snd kv = PDict d \<and>
           (\<not> truthy (get d ''success'' (PBool True)) \<or>
            (\<forall>e \<in> set d. fst e = ''success'' \<or> \<not> truthy (snd e)))))"
  by (cases "snd kv") (auto simp: is_available_def list_ex_iff)

lemma available_sources_empty:
  "available_sources rd = [] \<longleftrightarrow> (\<forall>kv \<in> set rd. \<not> is_available kv)"
  by (simp add: available_sources_def filter_empty_conv)

lemma length_available: "length (available_sources rd) = card (set (available_sources rd))"
proof -
  have "distinct (available_sources rd)" by (simp add: available_sources_def)
  then show ?thesis by (simp only: distinct_card)
qed

lemma length_referenced:
  "length (sources_referenced a rd) = card {s \<in> set (available_sources rd). is_referenced a s}"
proof -
  have "distinct (sources_referenced a rd)"
    by (simp add: sources_referenced_def available_sources_def)
  then have "length (sources_referenced a rd) = card (set (sources_referenced a rd))"
    by (simp add: distinct_card)
  then show ?thesis by (simp add: sources_referenced_def)
qed

text \<open>
  Claim C8. The completeness score is 1 when no top-level entry of the raw data is an
  available source: each has a falsy value, a reserved key, or a dictionary value with
  a falsy \<^verbatim>\<open>success\<close> flag or no truthy value under another key. Otherwise it is the
  number of available sources that are referenced over the number of available
  sources, the keys of the entries that pass the test.
\<close>

theorem completeness_score_ratio:
  "fst (check_completeness a rd ef) =
     (if \<forall>kv \<in> set rd.
           \<not> truthy (snd kv) \<or> fst kv \<in> set reserved_keys \<or>
           (\<exists>d. snd kv = PDict d \<and>
              (\<not> truthy (get d ''success'' (PBool True)) \<or>
               (\<forall>e \<in> set d. fst e = ''success'' \<or> \<not> truthy (snd e))))
      then 1
      else of_nat (card {s \<in> set (available_sources rd). is_referenced a s}) /
           of_nat (card (set (available_sources rd)))) \<and>
   set (available_sources rd) = fst ` {kv \<in> set rd. is_available kv}"
proof -
  have e: "(\<forall>kv \<in> set rd.
           \<not> truthy (snd kv) \<or> fst kv \<in> set reserved_keys \<or>
           (\<exists>d. snd kv = PDict d \<and>
              (\<not> truthy (get d ''success'' (PBool True)) \<or>
               (\<forall>e \<in> set d. fst e = ''success'' \<or> \<not> truthy (snd e))))) \<longleftrightarrow>
        available_sources rd = []"
    unfolding available_sources_empty is_available_iff by simp
  have v: "fst (check_completeness a rd ef) =
        (if available_sources rd = [] then 1
         else of_nat (length (sources_referenced a rd)) / of_nat (length (available_sources rd)))"
    by (simp add: check_completeness_def Let_def)
  have s: "set (available_sources rd) = fst ` {kv \<in> set rd. is_available kv}"
    by (simp add: available_sources_def)
  show ?thesis
    unfolding e v length_referenced length_available [symmetric] using s by simp
qed

theorem completeness_score_ratio_witness:
  "fst (check_completeness summary_analysis three_sources_data None) =
     of_nat (card {s \<in> set (available_sources three_sources_data).
                   is_referenced summary_analysis s}) /
     of_nat (card (set (available_sources three_sources_data))) \<and>
   fst (check_completeness overconfident_analysis low_quality_data None) = 1"
proof -
  have n: "\<not> (\<forall>kv \<in> set three_sources_data.
           \<not> truthy (snd kv) \<or> fst kv \<in> set reserved_keys \<or>
           (\<exists>d. snd kv = PDict d \<and>
              (\<not> truthy (get d ''success'' (PBool True)) \<or>
               (\<forall>e \<in> set d. fst e = ''success'' \<or> \<not> truthy (snd e)))))"
    by (simp add: three_sources_data_def reserved_keys_def get_def)
  have y: "\<forall>kv \<in> set low_quality_data.
           \<not> truthy (snd kv) \<or> fst kv \<in> set reserved_keys \<or>
           (\<exists>d. snd kv = PDict d \<and>
              (\<not> truthy (get d ''success'' (PBool True)) \<or>
               (\<forall>e \<in> set d. fst e = ''success'' \<or> \<not> truthy (snd e))))"
    by (simp add: low_quality_data_def reserved_keys_def)
  note t1 = completeness_score_ratio [of summary_analysis three_sources_data None, THEN conjunct1]
  note t2 = completeness_score_ratio [of overconfident_analysis low_quality_data None, THEN conjunct1]
  have 1: "fst (check_completeness summary_analysis three_sources_data None) =
     of_nat (card {s \<in> set (available_sources three_sources_data).
                   is_referenced summary_analysis s}) /
     of_nat (card (set (available_sources three_sources_data)))"
    by (rule trans [OF t1 if_not_P [OF n]])
  have 2: "fst (check_completeness overconfident_analysis low_quality_data None) = 1"
    by (rule trans [OF t2 if_P [OF y]])
  from 1 2 show ?thesis by (rule conjI)
qed

section \<open>Falling back from the language model\<close>

lemma validate_with_Inl:
  "validate_with qf cfg e a rd ef = Inl err \<longleftrightarrow>
     check_consistency a rd = Inl err \<or>
     (\<exists>consistency. check_consistency a rd = Inr consistency \<and>
        (check_logic a rd = Inl err \<or>
         (\<exists>logic. check_logic a rd = Inr logic \<and>
            qf a rd (snd (check_completeness a rd ef) @ snd consistency @ snd logic) = Inl err)))"
  unfolding validate_with_def Let_def bind_def
  by (cases "check_consistency a rd"; cases "check_logic a rd";
      simp split: sum.splits)

lemma llm_questions_length: "llm_questions resp = Inr qs \<Longrightarrow> length qs \<le> 3"
  by (auto simp: llm_questions_def bind_def split: sum.splits pyval.splits)

lemma empty_questions: "generate_adversarial_questions [] [] [] = Inr fixed_questions"
  by code_simp

text \<open>
  Claim C9. When the rule-based generator returns its list, the generator with a
  language model returns that list followed by at most three more questions, whatever
  the client does; it returns exactly that list when the client raises or its response
  is malformed. The validator built on it raises exactly when the rule-based validator
  raises, and the same exception: none comes from the client.
\<close>

theorem ollama_questions_fall_back:
  assumes "generate_adversarial_questions a rd iss = Inr base"
  shows "(\<exists>llm. length llm \<le> 3 \<and>
            ollama_generate_adversarial_questions outcome a rd iss = Inr (base @ llm)) \<and>
         (outcome = Raised \<longrightarrow>
            ollama_generate_adversarial_questions outcome a rd iss = Inr base) \<and>
         (\<forall>resp err. outcome = Returned resp \<and> llm_questions resp = Inl err \<longrightarrow>
            ollama_generate_adversarial_questions outcome a rd iss = Inr base) \<and>
         (\<forall>err. ollama_validate outcome cfg e a rd ef = Inl err \<longleftrightarrow>
                validate cfg e a rd ef = Inl err)"
proof -
  have 1: "\<exists>llm. length llm \<le> 3 \<and>
            ollama_generate_adversarial_questions outcome a rd iss = Inr (base @ llm)"
  proof (cases outcome)
    case Raised
    then have "ollama_generate_adversarial_questions outcome a rd iss = Inr (base @ [])"
      using assms by (simp add: ollama_generate_adversarial_questions_def bind_def)
    then show ?thesis by (metis le0 list.size(3))
  next
    case (Returned resp)
    show ?thesis
    proof (cases "llm_questions resp")
      case (Inl err)
      then have "ollama_generate_adversarial_questions outcome a rd iss = Inr (base @ [])"
        using assms Returned by (simp add: ollama_generate_adversarial_questions_def bind_def)
      then show ?thesis by (metis le0 list.size(3))
    next
      case (Inr llm)
      then have "ollama_generate_adversarial_questions outcome a rd iss = Inr (base @ llm)"
        using assms Returned by (simp add: ollama_generate_adversarial_questions_def bind_def)
      then show ?thesis using llm_questions_length [OF Inr] by blast
    qed
  qed
  have 2: "outcome = Raised \<longrightarrow>
            ollama_generate_adversarial_questions outcome a rd iss = Inr base"
    using assms by (simp add: ollama_generate_adversarial_questions_def bind_def)
  have 3: "\<forall>resp err. outcome = Returned resp \<and> llm_questions resp = Inl err \<longrightarrow>
            ollama_generate_adversarial_questions outcome a rd iss = Inr base"
    using assms by (simp add: ollama_generate_adversarial_questions_def bind_def)
  have same: "(ollama_generate_adversarial_questions outcome a' rd' iss' = Inl err) =
              (generate_adversarial_questions a' rd' iss' = Inl err)" for a' rd' iss' err
    by (auto simp: ollama_generate_adversarial_questions_def bind_def
          split: sum.splits chat_outcome.splits)
  have 4: "\<forall>err. ollama_validate outcome cfg e a rd ef = Inl err \<longleftrightarrow>
                validate cfg e a rd ef = Inl err"
    unfolding ollama_validate_def validate_def validate_with_Inl same by simp
  from 1 2 3 4 show ?thesis by blast
qed

theorem ollama_questions_fall_back_witness:
  "ollama_generate_adversarial_questions Raised [] [] [] = Inr fixed_questions \<and>
   ollama_generate_adversarial_questions (Returned (PStr ''no'')) [] [] [] = Inr fixed_questions"
proof -
  have m: "llm_questions (PStr ''no'') = Inl TypeError"
    by (simp add: llm_questions_def bind_def)
  note t1 = ollama_questions_fall_back [OF empty_questions, of Raised]
  note t2 = ollama_questions_fall_back [OF empty_questions, of "Returned (PStr ''no'')"]
  from t1 have 1: "ollama_generate_adversarial_questions Raised [] [] [] = Inr fixed_questions"
    by blast
  from t2 m have 2: "ollama_generate_adversarial_questions (Returned (PStr ''no'')) [] [] [] =
      Inr fixed_questions"
    by blast
  from 1 2 show ?thesis by (rule conjI)
qed

section \<open>A missing data quality score\<close>

lemma check_logic_sources_only:
  assumes "map_of rd' ''sources_successful'' = map_of rd ''sources_successful''"
  shows "check_logic a rd' = check_logic a rd"
proof -
  have "get rd' ''sources_successful'' (PList []) = get rd ''sources_successful'' (PList [])"
    unfolding get_def assms ..
  then show ?thesis unfolding check_logic_def Let_def by (simp only:)
qed

lemma not_low_quality_100:
  "high_confidence_low_quality c (PInt 100) \<noteq> Inr True"
proof (cases "num_of c")
  case None
  then show ?thesis
    by (simp add: high_confidence_low_quality_def bind_def py_gt_def)
next
  case (Some q)
  then show ?thesis
    by (simp add: high_confidence_low_quality_def bind_def py_gt_def py_lt_def)
qed

text \<open>
  Claim C10. When the raw data has no \<^verbatim>\<open>data_quality_score\<close>, the consistency check and
  the question generator behave as on the same data with a score of 100: the
  low-data-quality rule does not fire and there is no data-quality question. The logic
  check depends on the raw data through \<^verbatim>\<open>sources_successful\<close> only: the data quality
  it reads, with the default 0, changes nothing.
\<close>

theorem missing_data_quality_score:
  assumes "map_of rd ''data_quality_score'' = None"
  shows "check_consistency a rd = check_consistency a ((''data_quality_score'', PInt 100) # rd) \<and>
         generate_adversarial_questions a rd iss =
           generate_adversarial_questions a ((''data_quality_score'', PInt 100) # rd) iss \<and>
         high_confidence_low_quality (get a ''confidence'' (PInt 0))
           (get rd ''data_quality_score'' (PInt 100)) \<noteq> Inr True \<and>
         data_quality_questions (get rd ''data_quality_score'' (PInt 100)) = Inr [] \<and>
         (\<forall>rd'. map_of rd' ''sources_successful'' = map_of rd ''sources_successful'' \<longrightarrow>
                check_logic a rd' = check_logic a rd)"
proof -
  have dq: "get rd ''data_quality_score'' (PInt 100) = PInt 100"
    using assms by (rule get_absent)
  have dq': "get ((''data_quality_score'', PInt 100) # rd) ''data_quality_score'' (PInt 100) = PInt 100"
    by (simp add: get_Cons)
  have sf: "get ((''data_quality_score'', PInt 100) # rd) ''sources_failed'' (PList []) =
            get rd ''sources_failed'' (PList [])"
    by (simp add: get_Cons)
  have 1: "check_consistency a rd = check_consistency a ((''data_quality_score'', PInt 100) # rd)"
    unfolding check_consistency_def Let_def dq dq' sf ..
  have 2: "generate_adversarial_questions a rd iss =
           generate_adversarial_questions a ((''data_quality_score'', PInt 100) # rd) iss"
    unfolding generate_adversarial_questions_def dq dq' sf ..
  have 3: "high_confidence_low_quality (get a ''confidence'' (PInt 0))
           (get rd ''data_quality_score'' (PInt 100)) \<noteq> Inr True"
    unfolding dq by (rule not_low_quality_100)
  have 4: "data_quality_questions (get rd ''data_quality_score'' (PInt 100)) = Inr []"
    unfolding dq by (simp add: data_quality_questions_def bind_def py_lt_def)
  have 5: "\<forall>rd'. map_of rd' ''sources_successful'' = map_of rd ''sources_successful'' \<longrightarrow>
                check_logic a rd' = check_logic a rd"
    using check_logic_sources_only by blast
  from 1 2 3 4 5 show ?thesis by (intro conjI)
qed

theorem missing_data_quality_score_witness:
  "check_consistency overconfident_analysis [] =
     check_consistency overconfident_analysis [(''data_quality_score'', PInt 100)] \<and>
   data_quality_questions (get [] ''data_quality_score'' (PInt 100)) = Inr [] \<and>
   check_logic overconfident_analysis low_quality_data = check_logic overconfident_analysis []"
proof -
  have h: "map_of ([] :: pydict) ''data_quality_score'' = None" by simp
  note t = missing_data_quality_score [OF h, of overconfident_analysis "[]"]
  have p: "map_of low_quality_data ''sources_successful'' = map_of ([] :: pydict) ''sources_successful''"
    by (simp add: low_quality_data_def)
  from t have 1: "check_consistency overconfident_analysis [] =
     check_consistency overconfident_analysis [(''data_quality_score'', PInt 100)]"
    by (rule conjunct1)
  from t have 4: "data_quality_questions (get [] ''data_quality_score'' (PInt 100)) = Inr []"
    by (elim conjE)
  from t have "\<forall>rd'. map_of rd' ''sources_successful'' = map_of ([] :: pydict) ''sources_successful'' \<longrightarrow>
                check_logic overconfident_analysis rd' = check_logic overconfident_analysis []"
    by (elim conjE)
  then have 5: "check_logic overconfident_analysis low_quality_data = check_logic overconfident_analysis []"
    using p by blast
  from 1 4 5 show ?thesis by (intro conjI)
qed

end
